theory Spec2Isabelle
  imports Main "HOL-Library.Word" "HOL-Library.Code_Target_Nat"
begin

section \<open>Big integers on the wire\<close>

text \<open>
  Every integer that crosses the stream is a protobuf \<open>bytes\<close> field.  The handlers read
  it with \<open>new(big.Int).SetBytes(field)\<close> and write it with \<open>v.Bytes()\<close>.  The values
  read this way are never negative, so the model keeps them in \<open>nat\<close>.
\<close>

type_synonym bytes = "8 word list"

text \<open>\<open>SetBytes\<close> reads a byte slice as a big-endian unsigned integer; the nil and the
  empty slice both give 0.\<close>

definition SetBytes :: "bytes \<Rightarrow> nat" where
  "SetBytes buf = foldl (\<lambda>acc b. acc * 256 + unat b) 0 buf"

text \<open>\<open>Bytes\<close> gives the big-endian byte slice of the value, without leading zero
  bytes; the slice of 0 is empty.\<close>

function Bytes :: "nat \<Rightarrow> bytes" where
  "Bytes x = (if x = 0 then [] else Bytes (x div 256) @ [of_nat (x mod 256)])"
  by pat_completeness auto
termination
  by (relation "measure (\<lambda>x. x)") auto

declare Bytes.simps [simp del]

section \<open>Messages\<close>

text \<open>
  Modelled from the spec: package \<open>pb\<close>, the generated protobuf code, is not among the
  source files.  Section 6 lists the message variants and their fields; the handlers
  name the Go fields they read and write.  A \<open>bytes\<close> field that is absent on the wire
  is the nil slice, which \<open>SetBytes\<close> reads like the empty one; a message field
  (\<open>Credential\<close>, \<open>T1\<close>, \<open>T2\<close>) is a pointer, nil when absent, hence an \<open>option\<close>.  Field
  names carry the message name as a prefix where two messages use the same one.
\<close>

record PseudonymsysNymGenProofRandomData =
  NymGen_X1 :: bytes
  NymGen_A1 :: bytes
  NymGen_B1 :: bytes
  NymGen_X2 :: bytes
  NymGen_A2 :: bytes
  NymGen_B2 :: bytes
  NymGen_R :: bytes
  NymGen_S :: bytes

record SchnorrProofRandomData =
  Schnorr_X :: bytes
  Schnorr_A :: bytes
  Schnorr_B :: bytes

record PseudonymsysIssueProofRandomData =
  Issue_X11 :: bytes
  Issue_X12 :: bytes
  Issue_X21 :: bytes
  Issue_X22 :: bytes
  Issue_A :: bytes
  Issue_B :: bytes

record PbTranscript =
  Transcript_A :: bytes
  Transcript_B :: bytes
  Transcript_Hash :: bytes
  Transcript_ZAlpha :: bytes

record PbCredential =
  SmallAToGamma :: bytes
  SmallBToGamma :: bytes
  AToGamma :: bytes
  BToGamma :: bytes
  T1 :: "PbTranscript option"
  T2 :: "PbTranscript option"

record PseudonymsysTransferCredentialData =
  OrgName :: string
  Transfer_X1 :: bytes
  Transfer_X2 :: bytes
  NymA :: bytes
  NymB :: bytes
  Credential :: "PbCredential option"

text \<open>The oneof \<open>Content\<close> of \<open>pb.Message\<close>; one-field payloads are their field
  (\<open>PedersenDecommitment.X\<close>, \<open>SchnorrProofData.Z\<close>, \<open>Status.Success\<close>, \<open>BigInt.X1\<close>,
  \<open>DoubleBigInt.X1, X2\<close>).\<close>

datatype content =
    Message_PseudonymsysNymGenProofRandomData PseudonymsysNymGenProofRandomData
  | Message_PedersenDecommitment bytes
  | Message_SchnorrProofData bytes
  | Message_Status bool
  | Message_SchnorrProofRandomData SchnorrProofRandomData
  | Message_Bigint bytes
  | Message_PseudonymsysIssueProofRandomData PseudonymsysIssueProofRandomData
  | Message_DoubleBigint bytes bytes
  | Message_PseudonymsysTransferCredentialData PseudonymsysTransferCredentialData

record Message =
  Content :: "content option"
  ProtocolError :: string

text \<open>
  Modelled from the spec: the getters of package \<open>pb\<close>.  The getter that the protobuf
  compiler generates for a variant of a oneof returns the payload when \<open>Content\<close> holds
  that variant, and nil (\<open>None\<close>) for every other variant and for an unset \<open>Content\<close>.
\<close>

fun GetPseudonymsysNymGenProofRandomData :: "Message \<Rightarrow> PseudonymsysNymGenProofRandomData option" where
  "GetPseudonymsysNymGenProofRandomData m =
     (case Content m of Some (Message_PseudonymsysNymGenProofRandomData d) \<Rightarrow> Some d | _ \<Rightarrow> None)"

fun GetSchnorrProofData :: "Message \<Rightarrow> bytes option" where
  "GetSchnorrProofData m = (case Content m of Some (Message_SchnorrProofData z) \<Rightarrow> Some z | _ \<Rightarrow> None)"

fun GetSchnorrProofRandomData :: "Message \<Rightarrow> SchnorrProofRandomData option" where
  "GetSchnorrProofRandomData m =
     (case Content m of Some (Message_SchnorrProofRandomData d) \<Rightarrow> Some d | _ \<Rightarrow> None)"

fun GetBigint :: "Message \<Rightarrow> bytes option" where
  "GetBigint m = (case Content m of Some (Message_Bigint x) \<Rightarrow> Some x | _ \<Rightarrow> None)"

fun GetDoubleBigint :: "Message \<Rightarrow> (bytes \<times> bytes) option" where
  "GetDoubleBigint m = (case Content m of Some (Message_DoubleBigint x y) \<Rightarrow> Some (x, y) | _ \<Rightarrow> None)"

fun GetPseudonymsysTransferCredentialData :: "Message \<Rightarrow> PseudonymsysTransferCredentialData option" where
  "GetPseudonymsysTransferCredentialData m =
     (case Content m of Some (Message_PseudonymsysTransferCredentialData d) \<Rightarrow> Some d | _ \<Rightarrow> None)"

section \<open>The stream\<close>

text \<open>
  Modelled from the spec: the server's \<open>send\<close> and \<open>receive\<close> are not among the source
  files; section 6 gives them as \<open>send(msg) \<rightarrow> Result\<close> and \<open>receive() \<rightarrow> Result<msg>\<close>.
  The stream is the list of what the successive receives return, the list of what the
  successive sends return (\<open>None\<close> for nil; past its end sends succeed) and the messages
  delivered so far.  A receive on an exhausted inbox is the closed stream.
\<close>

record stream =
  inbox :: "(string + Message) list"
  send_errors :: "string option list"
  outbox :: "Message list"

definition send :: "Message \<Rightarrow> stream \<Rightarrow> string option \<times> stream" where
  "send msg strm =
     (case send_errors strm of
        [] \<Rightarrow> (None, strm\<lparr>outbox := outbox strm @ [msg]\<rparr>)
      | None # es \<Rightarrow> (None, strm\<lparr>send_errors := es, outbox := outbox strm @ [msg]\<rparr>)
      | Some err # es \<Rightarrow> (Some err, strm\<lparr>send_errors := es\<rparr>))"

definition receive :: "stream \<Rightarrow> (string + Message) \<times> stream" where
  "receive strm =
     (case inbox strm of
        [] \<Rightarrow> (Inl ''EOF'', strm)
      | r # rs \<Rightarrow> (r, strm\<lparr>inbox := rs\<rparr>))"

section \<open>Configuration and primitives\<close>

record DLog =
  DLog_p :: nat
  DLog_g :: nat
  DLog_q :: nat

text \<open>
  Modelled from the spec: package \<open>config\<close> is not among the source files.  Its four
  loaders are total functions over a read-only configuration (section 4.1) and are
  fields of the environment of a run.  The environment also holds the primitives the
  spec names without defining: the CA signature check over the hash of the nym pair, and
  the hash \<open>H\<close> of section 4.2.3.  Section 4.3.3 names the claims of the second
  transcript \<open>(A', B')\<close> and does not say what they are; \<open>SecondClaims\<close> gives them from
  the credential.
\<close>

record Env =
  LoadDLog :: "string \<Rightarrow> DLog"
  LoadPseudonymsysCAPubKey :: "nat \<times> nat"
  LoadPseudonymsysOrgSecrets :: "string \<Rightarrow> string \<Rightarrow> nat \<times> nat"
  LoadPseudonymsysOrgPubKeys :: "string \<Rightarrow> nat \<times> nat"
  VerifySignature :: "nat \<times> nat \<Rightarrow> nat \<Rightarrow> nat \<Rightarrow> nat \<Rightarrow> bool"
  Hash :: "nat list \<Rightarrow> nat"
  SecondClaims :: "nat \<times> nat \<times> nat \<times> nat \<Rightarrow> nat \<times> nat"

section \<open>Sigma-protocol kernels\<close>

text \<open>
  Modelled from the spec: package \<open>pseudonymsys\<close> and the kernels under it are not among
  the source files.  Section 4.2.2: the two-exponent Schnorr verifier keeps the bases
  \<open>(g1, g2)\<close>, the claimed values \<open>(y1, y2)\<close>, the commitments \<open>(x1, x2)\<close> and the challenge
  \<open>c\<close>, and accepts \<open>z\<close> iff \<open>g1^z \<equiv> x1 \<sqdot> y1^c\<close> and \<open>g2^z \<equiv> x2 \<sqdot> y2^c\<close> modulo \<open>p\<close>.
\<close>

record EqualityVerifier =
  ev_g1 :: nat
  ev_g2 :: nat
  ev_y1 :: nat
  ev_y2 :: nat
  ev_x1 :: nat
  ev_x2 :: nat
  ev_challenge :: nat

definition EqualityVerifier_Verify :: "nat \<Rightarrow> EqualityVerifier \<Rightarrow> nat \<Rightarrow> bool" where
  "EqualityVerifier_Verify p v z \<longleftrightarrow>
     (ev_g1 v ^ z) mod p = (ev_x1 v * ev_y1 v ^ ev_challenge v) mod p \<and>
     (ev_g2 v ^ z) mod p = (ev_x2 v * ev_y2 v ^ ev_challenge v) mod p"

text \<open>
  Modelled from the spec: section 4.2.1, the single-exponent check of issuance round 1,
  \<open>a^z \<equiv> x \<sqdot> b^c\<close> modulo \<open>p\<close>.
\<close>

record SchnorrVerifier =
  sv_a :: nat
  sv_b :: nat
  sv_x :: nat
  sv_challenge :: nat

definition SchnorrVerifier_Verify :: "nat \<Rightarrow> SchnorrVerifier \<Rightarrow> nat \<Rightarrow> bool" where
  "SchnorrVerifier_Verify p v z \<longleftrightarrow> (sv_a v ^ z) mod p = (sv_x v * sv_b v ^ sv_challenge v) mod p"

text \<open>
  Modelled from the spec: section 4.2.3 with step 2 of section 4.3.3.  A transcript is
  \<open>(A, B, Hash, z\<^sub>\<alpha>)\<close>; the verifier recomputes the challenge
  \<open>H(g1, y1, g2, y2, A, B)\<close> from the bases \<open>(g1, g2)\<close> and the claims \<open>(y1, y2)\<close> and
  checks \<open>g1^z\<^sub>\<alpha> \<equiv> A \<sqdot> y1^H\<close> and \<open>g2^z\<^sub>\<alpha> \<equiv> B \<sqdot> y2^H\<close> modulo \<open>p\<close>.
\<close>

type_synonym transcript = "nat \<times> nat \<times> nat \<times> nat"

definition VerifyTranscript ::
  "Env \<Rightarrow> nat \<Rightarrow> nat \<times> nat \<Rightarrow> nat \<times> nat \<Rightarrow> transcript \<Rightarrow> bool" where
  "VerifyTranscript env p bases claims t =
     (case (bases, claims, t) of ((g1, g2), (y1, y2), (A, B, hash, zAlpha)) \<Rightarrow>
        let c = Hash env [g1, y1, g2, y2, A, B]
        in (g1 ^ zAlpha) mod p = (A * y1 ^ c) mod p \<and> (g2 ^ zAlpha) mod p = (B * y2 ^ c) mod p)"


section \<open>Organization roles\<close>

text \<open>
  Modelled from the spec: the role objects of package \<open>pseudonymsys\<close> (sections 3 and
  4.3), which are not among the source files.  A role method that samples takes the
  sampled value as an argument and reduces it into \<open>Z\<^sub>q\<close>.  The session state a method
  stores is an \<open>option\<close>, \<open>None\<close> until the storing method has run; the spec says
  nothing about a method called before its state is stored, and such a call has the
  result \<open>None\<close>.
\<close>

record OrgNymGen =
  NymGen_dlog :: DLog
  NymGen_caPubKey :: "nat \<times> nat"
  NymGen_EqualityVerifier :: "EqualityVerifier option"

definition NewOrgNymGen :: "DLog \<Rightarrow> nat \<Rightarrow> nat \<Rightarrow> OrgNymGen" where
  "NewOrgNymGen dlog caPubKeyX caPubKeyY =
     \<lparr>NymGen_dlog = dlog, NymGen_caPubKey = (caPubKeyX, caPubKeyY), NymGen_EqualityVerifier = None\<rparr>"

text \<open>Section 4.3.1, \<open>GetChallenge\<close>: the CA signature over \<open>H(nymA \<parallel> nymB)\<close> is checked
  first; on success the base pairs and the commitments are stored with a fresh
  challenge.\<close>

definition OrgNymGen_GetChallenge ::
  "Env \<Rightarrow> OrgNymGen \<Rightarrow> nat \<Rightarrow> nat \<Rightarrow> nat \<Rightarrow> nat \<Rightarrow> nat \<Rightarrow> nat \<Rightarrow> nat \<Rightarrow> nat \<Rightarrow> nat
     \<Rightarrow> (string + nat) \<times> OrgNymGen" where
  "OrgNymGen_GetChallenge env org nymA blindedA nymB blindedB x1 x2 r s rnd =
     (if \<not> VerifySignature env (NymGen_caPubKey org) (Hash env [nymA, nymB]) r s
      then (Inl ''INVALID_CA_SIGNATURE'', org)
      else
        let c = rnd mod DLog_q (NymGen_dlog org)
        in (Inr c,
            org\<lparr>NymGen_EqualityVerifier :=
                  Some \<lparr>ev_g1 = nymA, ev_g2 = blindedA, ev_y1 = nymB, ev_y2 = blindedB,
                        ev_x1 = x1, ev_x2 = x2, ev_challenge = c\<rparr>\<rparr>))"

text \<open>Section 4.3.1, \<open>Verify(z)\<close>: the two-exponent check on the stored state.\<close>

definition OrgNymGen_Verify :: "OrgNymGen \<Rightarrow> nat \<Rightarrow> bool option" where
  "OrgNymGen_Verify org z =
     (case NymGen_EqualityVerifier org of
        None \<Rightarrow> None
      | Some v \<Rightarrow> Some (EqualityVerifier_Verify (DLog_p (NymGen_dlog org)) v z))"

record IssuerProofState =
  ips_r1 :: nat
  ips_r2 :: nat
  ips_gamma1 :: nat
  ips_gamma2 :: nat

record OrgCredentialIssuer =
  Issuer_dlog :: DLog
  Issuer_s1 :: nat
  Issuer_s2 :: nat
  Issuer_SchnorrVerifier :: "SchnorrVerifier option"
  Issuer_ProofState :: "IssuerProofState option"
  Issuer_z :: "(nat \<times> nat) option"

definition NewOrgCredentialIssuer :: "DLog \<Rightarrow> nat \<Rightarrow> nat \<Rightarrow> OrgCredentialIssuer" where
  "NewOrgCredentialIssuer dlog s1 s2 =
     \<lparr>Issuer_dlog = dlog, Issuer_s1 = s1, Issuer_s2 = s2, Issuer_SchnorrVerifier = None,
      Issuer_ProofState = None, Issuer_z = None\<rparr>"

text \<open>Section 4.3.2, R1: store \<open>(x, a, b)\<close> and a fresh challenge.\<close>

definition OrgCredentialIssuer_GetAuthenticationChallenge ::
  "OrgCredentialIssuer \<Rightarrow> nat \<Rightarrow> nat \<Rightarrow> nat \<Rightarrow> nat \<Rightarrow> nat \<times> OrgCredentialIssuer" where
  "OrgCredentialIssuer_GetAuthenticationChallenge org a b x rnd =
     (let c = rnd mod DLog_q (Issuer_dlog org)
      in (c, org\<lparr>Issuer_SchnorrVerifier :=
                   Some \<lparr>sv_a = a, sv_b = b, sv_x = x, sv_challenge = c\<rparr>\<rparr>))"

text \<open>
  Section 4.3.2, end of R1 and R2: the check \<open>a^z \<equiv> x \<sqdot> b^c\<close> fails with
  \<open>AUTH_FAILED\<close>; otherwise, with \<open>(h1, h2) = (g^s1, g^s2)\<close> and sampled
  \<open>r1, r2, \<gamma>1, \<gamma>2\<close>, the method stores the samples and returns
  \<open>(x11, x12, x21, x22) = (g^\<gamma>1, h1^\<gamma>1, g^\<gamma>2, h2^\<gamma>2)\<close> and
  \<open>(A, B) = (a^s2 \<sqdot> g^r1, b^s2 \<sqdot> h1^r1)\<close>, all modulo \<open>p\<close>.
\<close>

definition OrgCredentialIssuer_VerifyAuthentication ::
  "OrgCredentialIssuer \<Rightarrow> nat \<Rightarrow> nat \<times> nat \<times> nat \<times> nat
     \<Rightarrow> ((string + nat \<times> nat \<times> nat \<times> nat \<times> nat \<times> nat) \<times> OrgCredentialIssuer) option" where
  "OrgCredentialIssuer_VerifyAuthentication org z rnds =
     (case Issuer_SchnorrVerifier org of
        None \<Rightarrow> None
      | Some v \<Rightarrow>
          let p = DLog_p (Issuer_dlog org); g = DLog_g (Issuer_dlog org);
              q = DLog_q (Issuer_dlog org)
          in if \<not> SchnorrVerifier_Verify p v z then Some (Inl ''AUTH_FAILED'', org)
             else
               (case rnds of (rnd1, rnd2, rnd3, rnd4) \<Rightarrow>
                  let r1 = rnd1 mod q; r2 = rnd2 mod q;
                      gamma1 = rnd3 mod q; gamma2 = rnd4 mod q;
                      h1 = (g ^ Issuer_s1 org) mod p; h2 = (g ^ Issuer_s2 org) mod p;
                      x11 = (g ^ gamma1) mod p; x12 = (h1 ^ gamma1) mod p;
                      x21 = (g ^ gamma2) mod p; x22 = (h2 ^ gamma2) mod p;
                      A = (sv_a v ^ Issuer_s2 org * g ^ r1) mod p;
                      B = (sv_b v ^ Issuer_s2 org * h1 ^ r1) mod p
                  in Some (Inr (x11, x12, x21, x22, A, B),
                           org\<lparr>Issuer_ProofState :=
                                 Some \<lparr>ips_r1 = r1, ips_r2 = r2, ips_gamma1 = gamma1,
                                       ips_gamma2 = gamma2\<rparr>\<rparr>)))"

text \<open>Section 4.3.2, R3: \<open>(z1, z2) = (\<gamma>1 + c1\<sqdot>s1 mod q, \<gamma>2 + c2\<sqdot>s2 mod q)\<close>, stored and
  returned.\<close>

definition OrgCredentialIssuer_GetEqualityProofData ::
  "OrgCredentialIssuer \<Rightarrow> nat \<Rightarrow> nat \<Rightarrow> ((nat \<times> nat) \<times> OrgCredentialIssuer) option" where
  "OrgCredentialIssuer_GetEqualityProofData org challenge1 challenge2 =
     (case Issuer_ProofState org of
        None \<Rightarrow> None
      | Some st \<Rightarrow>
          let q = DLog_q (Issuer_dlog org);
              z1 = (ips_gamma1 st + challenge1 * Issuer_s1 org) mod q;
              z2 = (ips_gamma2 st + challenge2 * Issuer_s2 org) mod q
          in Some ((z1, z2), org\<lparr>Issuer_z := Some (z1, z2)\<rparr>))"

record Credential =
  Cred_SmallAToGamma :: nat
  Cred_SmallBToGamma :: nat
  Cred_AToGamma :: nat
  Cred_BToGamma :: nat
  Cred_T1 :: transcript
  Cred_T2 :: transcript

definition NewCredential :: "nat \<Rightarrow> nat \<Rightarrow> nat \<Rightarrow> nat \<Rightarrow> transcript \<Rightarrow> transcript \<Rightarrow> Credential" where
  "NewCredential aToGamma bToGamma AToGamma' BToGamma' t1 t2 =
     \<lparr>Cred_SmallAToGamma = aToGamma, Cred_SmallBToGamma = bToGamma, Cred_AToGamma = AToGamma',
      Cred_BToGamma = BToGamma', Cred_T1 = t1, Cred_T2 = t2\<rparr>"

record OrgPubKeys =
  PubKeys_H1 :: nat
  PubKeys_H2 :: nat

definition NewOrgPubKeys :: "nat \<Rightarrow> nat \<Rightarrow> OrgPubKeys" where
  "NewOrgPubKeys h1 h2 = \<lparr>PubKeys_H1 = h1, PubKeys_H2 = h2\<rparr>"

record OrgCredentialVerifier =
  Verifier_dlog :: DLog
  Verifier_s1 :: nat
  Verifier_s2 :: nat
  Verifier_EqualityVerifier :: "EqualityVerifier option"

definition NewOrgCredentialVerifier :: "DLog \<Rightarrow> nat \<Rightarrow> nat \<Rightarrow> OrgCredentialVerifier" where
  "NewOrgCredentialVerifier dlog s1 s2 =
     \<lparr>Verifier_dlog = dlog, Verifier_s1 = s1, Verifier_s2 = s2, Verifier_EqualityVerifier = None\<rparr>"

text \<open>Section 4.3.3, \<open>GetAuthenticationChallenge\<close>: the bases are \<open>nymA\<close> and the first element
  of the credential, the claimed values \<open>nymB\<close> and its second element; the commitments
  \<open>(x1, x2)\<close> are stored with a fresh challenge.\<close>

definition OrgCredentialVerifier_GetAuthenticationChallenge ::
  "OrgCredentialVerifier \<Rightarrow> nat \<Rightarrow> nat \<Rightarrow> nat \<Rightarrow> nat \<Rightarrow> nat \<Rightarrow> nat \<Rightarrow> nat
     \<Rightarrow> nat \<times> OrgCredentialVerifier" where
  "OrgCredentialVerifier_GetAuthenticationChallenge org nymA nymB aToGamma bToGamma x1 x2 rnd =
     (let c = rnd mod DLog_q (Verifier_dlog org)
      in (c, org\<lparr>Verifier_EqualityVerifier :=
                   Some \<lparr>ev_g1 = nymA, ev_g2 = aToGamma, ev_y1 = nymB, ev_y2 = bToGamma,
                         ev_x1 = x1, ev_x2 = x2, ev_challenge = c\<rparr>\<rparr>))"

text \<open>
  Section 4.3.3, step 2: the first transcript is checked on the bases \<open>(g, h1)\<close> with the
  claims \<open>(A, B)\<close> of the credential, the second on the bases \<open>(g, h2)\<close> with the claims
  \<open>(A', B')\<close>.
\<close>

definition VerifyCredentialTranscripts :: "Env \<Rightarrow> DLog \<Rightarrow> Credential \<Rightarrow> OrgPubKeys \<Rightarrow> bool" where
  "VerifyCredentialTranscripts env dlog credential orgPubKeys \<longleftrightarrow>
     VerifyTranscript env (DLog_p dlog) (DLog_g dlog, PubKeys_H1 orgPubKeys)
       (Cred_AToGamma credential, Cred_BToGamma credential) (Cred_T1 credential) \<and>
     VerifyTranscript env (DLog_p dlog) (DLog_g dlog, PubKeys_H2 orgPubKeys)
       (SecondClaims env (Cred_SmallAToGamma credential, Cred_SmallBToGamma credential,
                          Cred_AToGamma credential, Cred_BToGamma credential))
       (Cred_T2 credential)"

text \<open>Section 4.3.3, \<open>VerifyAuthentication\<close>: the conjunction of the two-exponent check
  (step 1) and of the two transcript checks (step 2).\<close>

definition OrgCredentialVerifier_VerifyAuthentication ::
  "Env \<Rightarrow> OrgCredentialVerifier \<Rightarrow> nat \<Rightarrow> Credential \<Rightarrow> OrgPubKeys \<Rightarrow> bool option" where
  "OrgCredentialVerifier_VerifyAuthentication env org z credential orgPubKeys =
     (case Verifier_EqualityVerifier org of
        None \<Rightarrow> None
      | Some v \<Rightarrow>
          Some (EqualityVerifier_Verify (DLog_p (Verifier_dlog org)) v z \<and>
                VerifyCredentialTranscripts env (Verifier_dlog org) credential orgPubKeys))"

section \<open>The handlers\<close>

text \<open>
  How a handler run ends: it returns (\<open>Returned None\<close> is the nil error, \<open>Returned (Some e)\<close>
  the transport error it passes on), or it panics on the field of a nil payload (a
  getter returned nil and the handler reads a field of the result), or it calls a role
  method whose state was never stored.  A run gives its end, the stream as it leaves it
  and the role object as it leaves it.  The values the role samples in a run are
  arguments of the handler.
\<close>

datatype outcome = Returned "string option" | NilDereference | RoleStateMissing

text \<open>\<open>PseudonymsysGenerateNym\<close>, lines 27 to 83.\<close>

definition PseudonymsysGenerateNym ::
  "Env \<Rightarrow> nat \<Rightarrow> Message \<Rightarrow> stream \<Rightarrow> outcome \<times> stream \<times> OrgNymGen" where
  "PseudonymsysGenerateNym env rnd req strm =
     (let dlog = LoadDLog env ''pseudonymsys'';
          (caPubKeyX, caPubKeyY) = LoadPseudonymsysCAPubKey env;
          org = NewOrgNymGen dlog caPubKeyX caPubKeyY
      in case GetPseudonymsysNymGenProofRandomData req of
           None \<Rightarrow> (NilDereference, strm, org)
         | Some proofRandData \<Rightarrow>
             let x1 = SetBytes (NymGen_X1 proofRandData);
                 nymA = SetBytes (NymGen_A1 proofRandData);
                 nymB = SetBytes (NymGen_B1 proofRandData);
                 x2 = SetBytes (NymGen_X2 proofRandData);
                 blindedA = SetBytes (NymGen_A2 proofRandData);
                 blindedB = SetBytes (NymGen_B2 proofRandData);
                 signatureR = SetBytes (NymGen_R proofRandData);
                 signatureS = SetBytes (NymGen_S proofRandData);
                 (res, org1) = OrgNymGen_GetChallenge env org nymA blindedA nymB blindedB x1 x2
                                 signatureR signatureS rnd;
                 resp = (case res of
                           Inl err \<Rightarrow>
                             \<lparr>Content = Some (Message_PedersenDecommitment []), ProtocolError = err\<rparr>
                         | Inr challenge \<Rightarrow>
                             \<lparr>Content = Some (Message_PedersenDecommitment (Bytes challenge)),
                              ProtocolError = []\<rparr>)
             in case send resp strm of
                  (Some err, strm1) \<Rightarrow> (Returned (Some err), strm1, org1)
                | (None, strm1) \<Rightarrow>
                    (case receive strm1 of
                       (Inl err, strm2) \<Rightarrow> (Returned (Some err), strm2, org1)
                     | (Inr req2, strm2) \<Rightarrow>
                         (case GetSchnorrProofData req2 of
                            None \<Rightarrow> (NilDereference, strm2, org1)
                          | Some proofData \<Rightarrow>
                              let z = SetBytes proofData
                              in case OrgNymGen_Verify org1 z of
                                   None \<Rightarrow> (RoleStateMissing, strm2, org1)
                                 | Some valid \<Rightarrow>
                                     (case send \<lparr>Content = Some (Message_Status valid),
                                                  ProtocolError = []\<rparr> strm2 of
                                        (Some err, strm3) \<Rightarrow> (Returned (Some err), strm3, org1)
                                      | (None, strm3) \<Rightarrow> (Returned None, strm3, org1)))))"

text \<open>\<open>PseudonymsysIssueCredential\<close>, lines 85 to 167.\<close>

definition PseudonymsysIssueCredential ::
  "Env \<Rightarrow> nat \<Rightarrow> nat \<times> nat \<times> nat \<times> nat \<Rightarrow> Message \<Rightarrow> stream
     \<Rightarrow> outcome \<times> stream \<times> OrgCredentialIssuer" where
  "PseudonymsysIssueCredential env rnd rnds req strm =
     (let dlog = LoadDLog env ''pseudonymsys'';
          (s1, s2) = LoadPseudonymsysOrgSecrets env ''org1'' ''dlog'';
          org = NewOrgCredentialIssuer dlog s1 s2
      in case GetSchnorrProofRandomData req of
           None \<Rightarrow> (NilDereference, strm, org)
         | Some sProofRandData \<Rightarrow>
             let x = SetBytes (Schnorr_X sProofRandData);
                 a = SetBytes (Schnorr_A sProofRandData);
                 b = SetBytes (Schnorr_B sProofRandData);
                 (challenge, org1) = OrgCredentialIssuer_GetAuthenticationChallenge org a b x rnd;
                 resp = \<lparr>Content = Some (Message_Bigint (Bytes challenge)), ProtocolError = []\<rparr>
             in case send resp strm of
                  (Some err, strm1) \<Rightarrow> (Returned (Some err), strm1, org1)
                | (None, strm1) \<Rightarrow>
                    (case receive strm1 of
                       (Inl err, strm2) \<Rightarrow> (Returned (Some err), strm2, org1)
                     | (Inr req2, strm2) \<Rightarrow>
                         (case GetBigint req2 of
                            None \<Rightarrow> (NilDereference, strm2, org1)
                          | Some proofData \<Rightarrow>
                              let z = SetBytes proofData
                              in case OrgCredentialIssuer_VerifyAuthentication org1 z rnds of
                                   None \<Rightarrow> (RoleStateMissing, strm2, org1)
                                 | Some (res, org2) \<Rightarrow>
                                     let resp2 =
                                       (case res of
                                          Inl err \<Rightarrow>
                                            \<lparr>Content = Some (Message_PseudonymsysIssueProofRandomData
                                               \<lparr>Issue_X11 = [], Issue_X12 = [], Issue_X21 = [],
                                                Issue_X22 = [], Issue_A = [], Issue_B = []\<rparr>),
                                             ProtocolError = err\<rparr>
                                        | Inr (x11, x12, x21, x22, A, B) \<Rightarrow>
                                            \<lparr>Content = Some (Message_PseudonymsysIssueProofRandomData
                                               \<lparr>Issue_X11 = Bytes x11, Issue_X12 = Bytes x12,
                                                Issue_X21 = Bytes x21, Issue_X22 = Bytes x22,
                                                Issue_A = Bytes A, Issue_B = Bytes B\<rparr>),
                                             ProtocolError = []\<rparr>)
                                     in case send resp2 strm2 of
                                          (Some err, strm3) \<Rightarrow> (Returned (Some err), strm3, org2)
                                        | (None, strm3) \<Rightarrow>
                                            (case receive strm3 of
                                               (Inl err, strm4) \<Rightarrow> (Returned (Some err), strm4, org2)
                                             | (Inr req3, strm4) \<Rightarrow>
                                                 (case GetDoubleBigint req3 of
                                                    None \<Rightarrow> (NilDereference, strm4, org2)
                                                  | Some (c1, c2) \<Rightarrow>
                                                      let challenge1 = SetBytes c1;
                                                          challenge2 = SetBytes c2
                                                      in case OrgCredentialIssuer_GetEqualityProofData
                                                                org2 challenge1 challenge2 of
                                                           None \<Rightarrow> (RoleStateMissing, strm4, org2)
                                                         | Some ((z1, z2), org3) \<Rightarrow>
                                                             (case send
                                                                \<lparr>Content = Some (Message_DoubleBigint
                                                                   (Bytes z1) (Bytes z2)),
                                                                 ProtocolError = []\<rparr> strm4 of
                                                                (Some err, strm5) \<Rightarrow>
                                                                  (Returned (Some err), strm5, org3)
                                                              | (None, strm5) \<Rightarrow>
                                                                  (Returned None, strm5, org3)))))))"

text \<open>\<open>PseudonymsysTransferCredential\<close>, lines 169 to 239.  The reads of
  \<open>data.Credential.T1\<close> and \<open>data.Credential.T2\<close> go through three pointers.\<close>

definition PseudonymsysTransferCredential ::
  "Env \<Rightarrow> nat \<Rightarrow> Message \<Rightarrow> stream \<Rightarrow> outcome \<times> stream \<times> OrgCredentialVerifier" where
  "PseudonymsysTransferCredential env rnd req strm =
     (let dlog = LoadDLog env ''pseudonymsys'';
          (s1, s2) = LoadPseudonymsysOrgSecrets env ''org1'' ''dlog'';
          org = NewOrgCredentialVerifier dlog s1 s2
      in case GetPseudonymsysTransferCredentialData req of
           None \<Rightarrow> (NilDereference, strm, org)
         | Some data \<Rightarrow>
             (case Credential data of
                None \<Rightarrow> (NilDereference, strm, org)
              | Some pbCredential \<Rightarrow>
                  (case T1 pbCredential of
                     None \<Rightarrow> (NilDereference, strm, org)
                   | Some pbT1 \<Rightarrow>
                       (case T2 pbCredential of
                          None \<Rightarrow> (NilDereference, strm, org)
                        | Some pbT2 \<Rightarrow>
     let orgName = OrgName data;
         x1 = SetBytes (Transfer_X1 data);
         x2 = SetBytes (Transfer_X2 data);
         nymA = SetBytes (NymA data);
         nymB = SetBytes (NymB data);
         t1 = (SetBytes (Transcript_A pbT1), SetBytes (Transcript_B pbT1),
               SetBytes (Transcript_Hash pbT1), SetBytes (Transcript_ZAlpha pbT1));
         t2 = (SetBytes (Transcript_A pbT2), SetBytes (Transcript_B pbT2),
               SetBytes (Transcript_Hash pbT2), SetBytes (Transcript_ZAlpha pbT2));
         credential = NewCredential
                        (SetBytes (SmallAToGamma pbCredential))
                        (SetBytes (SmallBToGamma pbCredential))
                        (SetBytes (AToGamma pbCredential))
                        (SetBytes (BToGamma pbCredential))
                        t1 t2;
         (challenge, org1) = OrgCredentialVerifier_GetAuthenticationChallenge org nymA nymB
                               (Cred_SmallAToGamma credential) (Cred_SmallBToGamma credential)
                               x1 x2 rnd;
         resp = \<lparr>Content = Some (Message_Bigint (Bytes challenge)), ProtocolError = []\<rparr>
     in case send resp strm of
          (Some err, strm1) \<Rightarrow> (Returned (Some err), strm1, org1)
        | (None, strm1) \<Rightarrow>
            (case receive strm1 of
               (Inl err, strm2) \<Rightarrow> (Returned (Some err), strm2, org1)
             | (Inr req2, strm2) \<Rightarrow>
                 let (h1, h2) = LoadPseudonymsysOrgPubKeys env orgName;
                     orgPubKeys = NewOrgPubKeys h1 h2
                 in case GetBigint req2 of
                      None \<Rightarrow> (NilDereference, strm2, org1)
                    | Some proofData \<Rightarrow>
                        let z = SetBytes proofData
                        in case OrgCredentialVerifier_VerifyAuthentication env org1 z credential
                                  orgPubKeys of
                             None \<Rightarrow> (RoleStateMissing, strm2, org1)
                           | Some verified \<Rightarrow>
                               (case send \<lparr>Content = Some (Message_Status verified),
                                            ProtocolError = []\<rparr> strm2 of
                                  (Some err, strm3) \<Rightarrow> (Returned (Some err), strm3, org1)
                                | (None, strm3) \<Rightarrow> (Returned None, strm3, org1)))))))"

section \<open>A toy instance\<close>

text \<open>
  The toy group of the spec's scenarios, \<open>p = 23\<close>, \<open>g = 2\<close>, \<open>q = 11\<close>, with the secrets
  \<open>(3, 6)\<close> of scenario 4 for \<open>org1\<close>, hence its public keys \<open>(2^3, 2^6) = (8, 18)\<close>, and a
  second organization with the secrets \<open>(4, 7)\<close> and the public keys \<open>(16, 13)\<close>.  The
  signature check, the hash and the second claims are small stand-ins, chosen so that
  both accepted and rejected inputs exist.
\<close>

definition toy_dlog :: DLog where
  "toy_dlog = \<lparr>DLog_p = 23, DLog_g = 2, DLog_q = 11\<rparr>"

definition toy_env :: Env where
  "toy_env =
     \<lparr>LoadDLog = (\<lambda>name. toy_dlog),
      LoadPseudonymsysCAPubKey = (3, 5),
      LoadPseudonymsysOrgSecrets = (\<lambda>org scheme. if org = ''org1'' then (3, 6) else (4, 7)),
      LoadPseudonymsysOrgPubKeys = (\<lambda>org. if org = ''org1'' then (8, 18) else (16, 13)),
      VerifySignature = (\<lambda>pk h r s. s = (fst pk * r + snd pk * h) mod 23),
      Hash = (\<lambda>ns. sum_list ns mod 11),
      SecondClaims = (\<lambda>(a, b, A, B). (A, (B * B) mod 23))\<rparr>"

text \<open>Master secret 5, nym \<open>(2, 2^5) = (2, 9)\<close>, blinded nym \<open>(4, 4^5) = (4, 12)\<close>,
  commitments \<open>(2^3, 4^3) = (8, 18)\<close>, and a signature \<open>(2, 6)\<close> the toy check accepts.\<close>

definition toy_nymgen_data :: PseudonymsysNymGenProofRandomData where
  "toy_nymgen_data =
     \<lparr>NymGen_X1 = [8], NymGen_A1 = [2], NymGen_B1 = [9], NymGen_X2 = [18], NymGen_A2 = [4],
      NymGen_B2 = [12], NymGen_R = [2], NymGen_S = [6]\<rparr>"

definition toy_nymgen_req :: Message where
  "toy_nymgen_req =
     \<lparr>Content = Some (Message_PseudonymsysNymGenProofRandomData toy_nymgen_data),
      ProtocolError = []\<rparr>"

text \<open>The same request with the signature perturbed by one, which the toy check rejects.\<close>

definition toy_nymgen_forged :: Message where
  "toy_nymgen_forged =
     \<lparr>Content = Some (Message_PseudonymsysNymGenProofRandomData
        (toy_nymgen_data\<lparr>NymGen_R := [3], NymGen_S := [7]\<rparr>)),
      ProtocolError = []\<rparr>"

text \<open>Issuance: the nym \<open>(a, b) = (2, 9)\<close> with the commitment \<open>x = 2^3 = 8\<close>.\<close>

definition toy_issue_req :: Message where
  "toy_issue_req =
     \<lparr>Content = Some (Message_SchnorrProofRandomData
        \<lparr>Schnorr_X = [8], Schnorr_A = [2], Schnorr_B = [9]\<rparr>),
      ProtocolError = []\<rparr>"

text \<open>
  Transfer: the credential \<open>(4, 12, 4, 18)\<close> with two transcripts made with the secrets
  of \<open>org1\<close>: \<open>(8, 6, 2, 7)\<close> on the bases \<open>(2, 8)\<close> and \<open>(16, 4, 2, 8)\<close> on the bases
  \<open>(2, 18)\<close>.
\<close>

definition toy_credential :: PbCredential where
  "toy_credential =
     \<lparr>SmallAToGamma = [4], SmallBToGamma = [12], AToGamma = [4], BToGamma = [18],
      T1 = Some \<lparr>Transcript_A = [8], Transcript_B = [6], Transcript_Hash = [2],
                 Transcript_ZAlpha = [7]\<rparr>,
      T2 = Some \<lparr>Transcript_A = [16], Transcript_B = [4], Transcript_Hash = [2],
                 Transcript_ZAlpha = [8]\<rparr>\<rparr>"

definition toy_transfer_data :: "string \<Rightarrow> PseudonymsysTransferCredentialData" where
  "toy_transfer_data name =
     \<lparr>OrgName = name, Transfer_X1 = [8], Transfer_X2 = [18], NymA = [2], NymB = [9],
      Credential = Some toy_credential\<rparr>"

definition toy_transfer_req :: "string \<Rightarrow> Message" where
  "toy_transfer_req name =
     \<lparr>Content = Some (Message_PseudonymsysTransferCredentialData (toy_transfer_data name)),
      ProtocolError = []\<rparr>"

definition msg :: "content \<Rightarrow> Message" where
  "msg c = \<lparr>Content = Some c, ProtocolError = []\<rparr>"

definition toy_stream :: "Message list \<Rightarrow> stream" where
  "toy_stream ms = \<lparr>inbox = map Inr ms, send_errors = [], outbox = []\<rparr>"

section \<open>Marshaling\<close>

lemma Bytes_zero: "Bytes 0 = []"
  by (simp add: Bytes.simps)

lemma Bytes_pos: "0 < x \<Longrightarrow> Bytes x = Bytes (x div 256) @ [of_nat (x mod 256)]"
  by (subst Bytes.simps) simp

lemma SetBytes_Nil: "SetBytes [] = 0"
  by (simp add: SetBytes_def)

lemma SetBytes_snoc: "SetBytes (bs @ [b]) = SetBytes bs * 256 + unat b"
  by (simp add: SetBytes_def)

lemma unat_byte_lt: "unat (b :: 8 word) < 256"
  using unsigned_less [of b, where 'a = nat] by simp

lemma SetBytes_Bytes: "SetBytes (Bytes x) = x"
proof (induction x rule: Bytes.induct)
  case (1 x)
  show ?case
  proof (cases "x = 0")
    case True
    then show ?thesis by (simp add: Bytes_zero SetBytes_Nil)
  next
    case False
    have low: "unat (of_nat (x mod 256) :: 8 word) = x mod 256"
      by (simp add: unat_of_nat)
    from False have "SetBytes (Bytes x) = SetBytes (Bytes (x div 256)) * 256 + x mod 256"
      by (simp add: Bytes_pos SetBytes_snoc low)
    with False "1.IH" show ?thesis by simp
  qed
qed

lemma SetBytes_eq_0_iff: "SetBytes bs = 0 \<longleftrightarrow> (\<forall>b \<in> set bs. b = 0)"
proof (induction bs rule: rev_induct)
  case Nil
  then show ?case by (simp add: SetBytes_Nil)
next
  case (snoc b bs)
  then show ?case by (auto simp: SetBytes_snoc unat_eq_0)
qed

lemma Bytes_SetBytes: "Bytes (SetBytes bs) = dropWhile (\<lambda>b. b = 0) bs"
proof (induction bs rule: rev_induct)
  case Nil
  then show ?case by (simp add: SetBytes_Nil Bytes_zero)
next
  case (snoc b bs)
  let ?n = "SetBytes bs * 256 + unat b"
  show ?case
  proof (cases "?n = 0")
    case True
    then have "\<forall>c \<in> set (bs @ [b]). c = 0"
      using SetBytes_eq_0_iff [of "bs @ [b]"] by (simp add: SetBytes_snoc)
    then have "dropWhile (\<lambda>b. b = 0) (bs @ [b]) = []"
      by (simp only: dropWhile_eq_Nil_conv)
    with True show ?thesis by (simp add: SetBytes_snoc Bytes_zero)
  next
    case False
    have d: "?n div 256 = SetBytes bs" and m: "?n mod 256 = unat b"
      using unat_byte_lt [of b] by simp_all
    have w: "(of_nat (unat b) :: 8 word) = b"
      by simp
    from False have "Bytes ?n = Bytes (SetBytes bs) @ [b]"
      by (simp only: Bytes_pos d m w neq0_conv [symmetric] not_False_eq_True)
    also have "\<dots> = dropWhile (\<lambda>b. b = 0) bs @ [b]"
      by (simp add: snoc.IH)
    also have "\<dots> = dropWhile (\<lambda>b. b = 0) (bs @ [b])"
    proof (cases "\<forall>c \<in> set bs. c = 0")
      case True
      with False have "b \<noteq> 0"
        using SetBytes_eq_0_iff [of bs] by (auto simp: unat_eq_0)
      with True show ?thesis by (simp add: dropWhile_append)
    next
      case False
      then show ?thesis by (auto simp: dropWhile_append)
    qed
    finally show ?thesis by (simp add: SetBytes_snoc)
  qed
qed

text \<open>
  Claim C7.  Unmarshaling the marshaled bytes of a non-negative big integer gives the
  integer back, and marshaling an unmarshaled byte string gives the byte string without
  its leading zero bytes.
\<close>

theorem C7_marshal_roundtrip:
  "SetBytes (Bytes x) = x \<and> Bytes (SetBytes b) = dropWhile (\<lambda>w. w = 0) b"
  by (simp add: SetBytes_Bytes Bytes_SetBytes)

section \<open>Stream and toy-instance facts\<close>

lemma send_Nil:
  "send_errors strm = [] \<Longrightarrow> send m strm = (None, strm\<lparr>outbox := outbox strm @ [m]\<rparr>)"
  by (simp add: send_def)

lemma receive_Cons:
  "inbox strm = r # rs \<Longrightarrow> receive strm = (r, strm\<lparr>inbox := rs\<rparr>)"
  by (simp add: receive_def)

lemma receive_Nil:
  "inbox strm = [] \<Longrightarrow> receive strm = (Inl ''EOF'', strm)"
  by (simp add: receive_def)

lemmas getter_simps =
  GetPseudonymsysNymGenProofRandomData.simps GetSchnorrProofData.simps
  GetSchnorrProofRandomData.simps GetBigint.simps GetDoubleBigint.simps
  GetPseudonymsysTransferCredentialData.simps

lemmas toy_defs =
  toy_env_def toy_dlog_def toy_nymgen_data_def toy_nymgen_req_def toy_nymgen_forged_def
  toy_issue_req_def toy_credential_def toy_transfer_data_def toy_transfer_req_def msg_def
  toy_stream_def

lemma SetBytes_single: "SetBytes [b] = unat b"
  by (simp add: SetBytes_def)

lemma Bytes_small: "0 < x \<Longrightarrow> x < 256 \<Longrightarrow> Bytes x = [of_nat x]"
  by (simp add: Bytes_pos Bytes_zero)

section \<open>Pseudonym generation: the final status\<close>

text \<open>
  Claim C1.  In \<open>PseudonymsysGenerateNym\<close>, when the challenge was issued and a response
  \<open>z\<close> arrives, the final message is \<open>Status\<close> with \<open>success\<close> true exactly when
  \<open>nymA^z \<equiv> x1 \<sqdot> nymB^c\<close> and \<open>blindedA^z \<equiv> x2 \<sqdot> blindedB^c\<close> modulo \<open>p\<close>, for the
  commitments \<open>x1, x2\<close> and the challenge \<open>c\<close> the role object stored.
\<close>

theorem C1_nymgen_status_iff_check:
  assumes "GetPseudonymsysNymGenProofRandomData req = Some d"
    and "VerifySignature env (LoadPseudonymsysCAPubKey env) (Hash env [nymA, nymB])
           (SetBytes (NymGen_R d)) (SetBytes (NymGen_S d))"
    and "send_errors strm = []"
    and "inbox strm = Inr req2 # rest"
    and "GetSchnorrProofData req2 = Some zb"
    and "z = SetBytes zb"
    and "p = DLog_p (LoadDLog env ''pseudonymsys'')"
    and "c = rnd mod DLog_q (LoadDLog env ''pseudonymsys'')"
    and "nymA = SetBytes (NymGen_A1 d)" and "nymB = SetBytes (NymGen_B1 d)"
    and "blindedA = SetBytes (NymGen_A2 d)" and "blindedB = SetBytes (NymGen_B2 d)"
    and "x1 = SetBytes (NymGen_X1 d)" and "x2 = SetBytes (NymGen_X2 d)"
  shows "case PseudonymsysGenerateNym env rnd req strm of
           (out, strm', org') \<Rightarrow>
             out = Returned None \<and>
             NymGen_EqualityVerifier org' =
               Some \<lparr>ev_g1 = nymA, ev_g2 = blindedA, ev_y1 = nymB, ev_y2 = blindedB,
                     ev_x1 = x1, ev_x2 = x2, ev_challenge = c\<rparr> \<and>
             outbox strm' = outbox strm @
               [\<lparr>Content = Some (Message_PedersenDecommitment (Bytes c)), ProtocolError = []\<rparr>,
                \<lparr>Content = Some (Message_Status
                    ((nymA ^ z) mod p = (x1 * nymB ^ c) mod p \<and>
                     (blindedA ^ z) mod p = (x2 * blindedB ^ c) mod p)),
                 ProtocolError = []\<rparr>]"
  using assms
  by (simp add: PseudonymsysGenerateNym_def Let_def case_prod_beta send_Nil receive_Cons
        NewOrgNymGen_def OrgNymGen_GetChallenge_def OrgNymGen_Verify_def
        EqualityVerifier_Verify_def
      del: getter_simps)



lemma toy_loads:
  "LoadDLog toy_env n = toy_dlog" "LoadPseudonymsysCAPubKey toy_env = (3, 5)"
  "DLog_p toy_dlog = 23" "DLog_g toy_dlog = 2" "DLog_q toy_dlog = 11"
  by (simp_all add: toy_env_def toy_dlog_def)

lemma toy_stream_fields:
  "send_errors (toy_stream ms) = []" "inbox (toy_stream (m # ms)) = Inr m # map Inr ms"
  "outbox (toy_stream ms) = []"
  by (simp_all add: toy_stream_def)

lemma toy_nymgen_fields:
  "SetBytes (NymGen_A1 toy_nymgen_data) = 2" "SetBytes (NymGen_B1 toy_nymgen_data) = 9"
  "SetBytes (NymGen_A2 toy_nymgen_data) = 4" "SetBytes (NymGen_B2 toy_nymgen_data) = 12"
  "SetBytes (NymGen_X1 toy_nymgen_data) = 8" "SetBytes (NymGen_X2 toy_nymgen_data) = 18"
  "SetBytes (NymGen_R toy_nymgen_data) = 2" "SetBytes (NymGen_S toy_nymgen_data) = 6"
  by (simp_all add: toy_nymgen_data_def SetBytes_single)

text \<open>The honest run of scenario 1 with the challenge 2 and the response
  \<open>z = 3 + 2 \<sqdot> 5 mod 11 = 2\<close>.\<close>

theorem C1_nymgen_status_iff_check_witness:
  "case PseudonymsysGenerateNym toy_env 2 toy_nymgen_req
           (toy_stream [msg (Message_SchnorrProofData [2])]) of
      (out, strm', org') \<Rightarrow>
        out = Returned None \<and>
        outbox strm' =
          [msg (Message_PedersenDecommitment [2]), msg (Message_Status True)]"
proof -
  have req: "GetPseudonymsysNymGenProofRandomData toy_nymgen_req = Some toy_nymgen_data"
    by (simp add: toy_nymgen_req_def)
  have sig: "VerifySignature toy_env (LoadPseudonymsysCAPubKey toy_env) (Hash toy_env [2, 9])
               (SetBytes (NymGen_R toy_nymgen_data)) (SetBytes (NymGen_S toy_nymgen_data))"
    by (simp add: toy_env_def toy_nymgen_fields)
  have z: "GetSchnorrProofData (msg (Message_SchnorrProofData [2])) = Some [2]"
    by (simp add: msg_def)
  have "case PseudonymsysGenerateNym toy_env 2 toy_nymgen_req
           (toy_stream [msg (Message_SchnorrProofData [2])]) of
      (out, strm', org') \<Rightarrow>
             out = Returned None \<and>
             NymGen_EqualityVerifier org' =
               Some \<lparr>ev_g1 = 2, ev_g2 = 4, ev_y1 = 9, ev_y2 = 12,
                     ev_x1 = 8, ev_x2 = 18, ev_challenge = 2\<rparr> \<and>
             outbox strm' = outbox (toy_stream [msg (Message_SchnorrProofData [2])]) @
               [\<lparr>Content = Some (Message_PedersenDecommitment (Bytes 2)), ProtocolError = []\<rparr>,
                \<lparr>Content = Some (Message_Status
                    (((2::nat) ^ 2) mod 23 = (8 * 9 ^ 2) mod 23 \<and>
                     ((4::nat) ^ 2) mod 23 = (18 * 12 ^ 2) mod 23)),
                 ProtocolError = []\<rparr>]"
    by (rule C1_nymgen_status_iff_check [OF req sig _ _ z])
       (simp_all add: toy_stream_fields toy_loads toy_nymgen_fields SetBytes_single)
  then show ?thesis
    by (simp add: toy_stream_fields msg_def Bytes_small split: prod.splits)
qed

lemma toy_secrets:
  "LoadPseudonymsysOrgSecrets toy_env ''org1'' scheme = (3, 6)"
  "LoadPseudonymsysOrgPubKeys toy_env ''org1'' = (8, 18)"
  "LoadPseudonymsysOrgPubKeys toy_env ''org2'' = (16, 13)"
  by (simp_all add: toy_env_def)

section \<open>Credential issuance: round 3\<close>

text \<open>
  Claim C4.  In round 3 of \<open>PseudonymsysIssueCredential\<close> the \<open>DoubleBigInt\<close> response
  carries \<open>(z1, z2) = ((\<gamma>1 + c1 \<sqdot> s1) mod q, (\<gamma>2 + c2 \<sqdot> s2) mod q)\<close> for the received
  challenges \<open>(c1, c2)\<close>, the stored nonces \<open>\<gamma>1, \<gamma>2\<close> and the secrets \<open>s1, s2\<close> of
  the organization.
\<close>

theorem C4_issue_round3_response:
  assumes "GetSchnorrProofRandomData req = Some d"
    and "send_errors strm = []"
    and "inbox strm = Inr req2 # Inr req3 # rest"
    and "GetBigint req2 = Some zb"
    and "GetDoubleBigint req3 = Some (c1b, c2b)"
    and "dlog = LoadDLog env ''pseudonymsys''"
    and "q = DLog_q dlog"
    and "SchnorrVerifier_Verify (DLog_p dlog)
           \<lparr>sv_a = SetBytes (Schnorr_A d), sv_b = SetBytes (Schnorr_B d),
            sv_x = SetBytes (Schnorr_X d), sv_challenge = rnd mod q\<rparr> (SetBytes zb)"
    and "(s1, s2) = LoadPseudonymsysOrgSecrets env ''org1'' ''dlog''"
    and "gamma1 = rnd3 mod q" and "gamma2 = rnd4 mod q"
    and "c1 = SetBytes c1b" and "c2 = SetBytes c2b"
  shows "case PseudonymsysIssueCredential env rnd (rnd1, rnd2, rnd3, rnd4) req strm of
           (out, strm', org') \<Rightarrow>
             out = Returned None \<and>
             map_option ips_gamma1 (Issuer_ProofState org') = Some gamma1 \<and>
             map_option ips_gamma2 (Issuer_ProofState org') = Some gamma2 \<and>
             Issuer_s1 org' = s1 \<and> Issuer_s2 org' = s2 \<and> DLog_q (Issuer_dlog org') = q \<and>
             length (outbox strm') = length (outbox strm) + 3 \<and>
             last (outbox strm') =
               \<lparr>Content = Some (Message_DoubleBigint
                   (Bytes ((gamma1 + c1 * s1) mod q)) (Bytes ((gamma2 + c2 * s2) mod q))),
                ProtocolError = []\<rparr>"
proof -
  from assms(9) have s: "fst (LoadPseudonymsysOrgSecrets env ''org1'' ''dlog'') = s1"
      "snd (LoadPseudonymsysOrgSecrets env ''org1'' ''dlog'') = s2"
    by (metis fst_conv, metis snd_conv)
  show ?thesis
    using assms(1-8,10-) s
    by (simp add: PseudonymsysIssueCredential_def Let_def case_prod_beta send_Nil receive_Cons
          NewOrgCredentialIssuer_def OrgCredentialIssuer_GetAuthenticationChallenge_def
          OrgCredentialIssuer_VerifyAuthentication_def
          OrgCredentialIssuer_GetEqualityProofData_def
        del: getter_simps)
qed

text \<open>Scenario 4: \<open>\<gamma>1 = 4\<close>, \<open>\<gamma>2 = 7\<close>, \<open>s1 = 3\<close>, \<open>s2 = 6\<close>, \<open>q = 11\<close> and the
  challenges \<open>(2, 5)\<close> give the response \<open>(10, 4)\<close>.\<close>

theorem C4_issue_round3_response_witness:
  "case PseudonymsysIssueCredential toy_env 2 (1, 1, 4, 7) toy_issue_req
          (toy_stream [msg (Message_Bigint [2]), msg (Message_DoubleBigint [2] [5])]) of
     (out, strm', org') \<Rightarrow>
       out = Returned None \<and>
       map_option ips_gamma1 (Issuer_ProofState org') = Some 4 \<and>
       map_option ips_gamma2 (Issuer_ProofState org') = Some 7 \<and>
       Issuer_s1 org' = 3 \<and> Issuer_s2 org' = 6 \<and> DLog_q (Issuer_dlog org') = 11 \<and>
       last (outbox strm') = msg (Message_DoubleBigint [10] [4])"
proof -
  let ?d = "\<lparr>Schnorr_X = [8], Schnorr_A = [2], Schnorr_B = [9]\<rparr>"
  let ?strm = "toy_stream [msg (Message_Bigint [2]), msg (Message_DoubleBigint [2] [5])]"
  have req: "GetSchnorrProofRandomData toy_issue_req = Some ?d"
    by (simp add: toy_issue_req_def)
  have inb: "inbox ?strm = Inr (msg (Message_Bigint [2])) # Inr (msg (Message_DoubleBigint [2] [5])) # []"
    by (simp add: toy_stream_def)
  have z: "GetBigint (msg (Message_Bigint [2])) = Some [2]"
    by (simp add: msg_def)
  have cs: "GetDoubleBigint (msg (Message_DoubleBigint [2] [5])) = Some ([2], [5])"
    by (simp add: msg_def)
  have auth: "SchnorrVerifier_Verify (DLog_p toy_dlog)
           \<lparr>sv_a = SetBytes (Schnorr_A ?d), sv_b = SetBytes (Schnorr_B ?d),
            sv_x = SetBytes (Schnorr_X ?d), sv_challenge = 2 mod 11\<rparr> (SetBytes [2])"
    by (simp add: SchnorrVerifier_Verify_def toy_loads SetBytes_single)
  have sec: "(3, 6) = LoadPseudonymsysOrgSecrets toy_env ''org1'' ''dlog''"
    by (simp add: toy_secrets)
  have "case PseudonymsysIssueCredential toy_env 2 (1, 1, 4, 7) toy_issue_req ?strm of
           (out, strm', org') \<Rightarrow>
             out = Returned None \<and>
             map_option ips_gamma1 (Issuer_ProofState org') = Some 4 \<and>
             map_option ips_gamma2 (Issuer_ProofState org') = Some 7 \<and>
             Issuer_s1 org' = 3 \<and> Issuer_s2 org' = 6 \<and> DLog_q (Issuer_dlog org') = 11 \<and>
             length (outbox strm') = length (outbox ?strm) + 3 \<and>
             last (outbox strm') =
               \<lparr>Content = Some (Message_DoubleBigint
                   (Bytes ((4 + 2 * 3) mod 11)) (Bytes ((7 + 5 * 6) mod 11))),
                ProtocolError = []\<rparr>"
    by (rule C4_issue_round3_response [OF req toy_stream_fields(1) inb z cs _ _ auth sec])
       (simp_all add: toy_loads SetBytes_single)
  then show ?thesis
    by (simp add: msg_def Bytes_small split: prod.splits)
qed

section \<open>Credential transfer: the final status\<close>




section \<open>Determinism of the verification steps\<close>

text \<open>
  Claim C8.  The verification outcome is a function of the group parameters, the stored
  session state (bases, claimed values, commitments, challenge) and the received \<open>z\<close>,
  and for the transfer also of the credential and the issuer public keys: two role
  objects that agree on these give the same outcome, whatever else differs (the CA key,
  the organization secrets, the configuration).
\<close>

theorem C8_verification_deterministic:
  "(NymGen_dlog org1 = NymGen_dlog org2 \<and>
    NymGen_EqualityVerifier org1 = NymGen_EqualityVerifier org2 \<longrightarrow>
      OrgNymGen_Verify org1 z = OrgNymGen_Verify org2 z) \<and>
   (Verifier_dlog ver1 = Verifier_dlog ver2 \<and>
    Verifier_EqualityVerifier ver1 = Verifier_EqualityVerifier ver2 \<and>
    Hash env1 = Hash env2 \<and> SecondClaims env1 = SecondClaims env2 \<longrightarrow>
      OrgCredentialVerifier_VerifyAuthentication env1 ver1 z credential orgPubKeys =
      OrgCredentialVerifier_VerifyAuthentication env2 ver2 z credential orgPubKeys)"
proof (intro conjI impI)
  assume "NymGen_dlog org1 = NymGen_dlog org2 \<and>
    NymGen_EqualityVerifier org1 = NymGen_EqualityVerifier org2"
  then show "OrgNymGen_Verify org1 z = OrgNymGen_Verify org2 z"
    by (simp only: OrgNymGen_Verify_def)
next
  assume "Verifier_dlog ver1 = Verifier_dlog ver2 \<and>
    Verifier_EqualityVerifier ver1 = Verifier_EqualityVerifier ver2 \<and>
    Hash env1 = Hash env2 \<and> SecondClaims env1 = SecondClaims env2"
  then show "OrgCredentialVerifier_VerifyAuthentication env1 ver1 z credential orgPubKeys =
      OrgCredentialVerifier_VerifyAuthentication env2 ver2 z credential orgPubKeys"
    by (simp only: OrgCredentialVerifier_VerifyAuthentication_def
          VerifyCredentialTranscripts_def VerifyTranscript_def)
qed

text \<open>Two \<open>OrgNymGen\<close> objects with different CA keys, and two \<open>OrgCredentialVerifier\<close>
  objects with different secrets under configurations with different CA keys, on the
  state of the toy runs and the out-of-range response \<open>z = 13\<close>.\<close>

theorem C8_verification_deterministic_witness:
  "OrgNymGen_Verify
     \<lparr>NymGen_dlog = toy_dlog, NymGen_caPubKey = (3, 5),
      NymGen_EqualityVerifier = Some \<lparr>ev_g1 = 2, ev_g2 = 4, ev_y1 = 9, ev_y2 = 12, ev_x1 = 8,
        ev_x2 = 18, ev_challenge = 2\<rparr>\<rparr> 13 =
   OrgNymGen_Verify
     \<lparr>NymGen_dlog = toy_dlog, NymGen_caPubKey = (7, 1),
      NymGen_EqualityVerifier = Some \<lparr>ev_g1 = 2, ev_g2 = 4, ev_y1 = 9, ev_y2 = 12, ev_x1 = 8,
        ev_x2 = 18, ev_challenge = 2\<rparr>\<rparr> 13 \<and>
   OrgCredentialVerifier_VerifyAuthentication toy_env
     \<lparr>Verifier_dlog = toy_dlog, Verifier_s1 = 3, Verifier_s2 = 6,
      Verifier_EqualityVerifier = Some \<lparr>ev_g1 = 2, ev_g2 = 4, ev_y1 = 9, ev_y2 = 12,
        ev_x1 = 8, ev_x2 = 18, ev_challenge = 2\<rparr>\<rparr> 13
     (NewCredential 4 12 4 18 (8, 6, 2, 7) (16, 4, 2, 8)) (NewOrgPubKeys 8 18) =
   OrgCredentialVerifier_VerifyAuthentication (toy_env\<lparr>LoadPseudonymsysCAPubKey := (7, 1)\<rparr>)
     \<lparr>Verifier_dlog = toy_dlog, Verifier_s1 = 4, Verifier_s2 = 7,
      Verifier_EqualityVerifier = Some \<lparr>ev_g1 = 2, ev_g2 = 4, ev_y1 = 9, ev_y2 = 12,
        ev_x1 = 8, ev_x2 = 18, ev_challenge = 2\<rparr>\<rparr> 13
     (NewCredential 4 12 4 18 (8, 6, 2, 7) (16, 4, 2, 8)) (NewOrgPubKeys 8 18)"
  using C8_verification_deterministic [of
      "\<lparr>NymGen_dlog = toy_dlog, NymGen_caPubKey = (3, 5),
        NymGen_EqualityVerifier = Some \<lparr>ev_g1 = 2, ev_g2 = 4, ev_y1 = 9, ev_y2 = 12, ev_x1 = 8,
          ev_x2 = 18, ev_challenge = 2\<rparr>\<rparr>"
      "\<lparr>NymGen_dlog = toy_dlog, NymGen_caPubKey = (7, 1),
        NymGen_EqualityVerifier = Some \<lparr>ev_g1 = 2, ev_g2 = 4, ev_y1 = 9, ev_y2 = 12, ev_x1 = 8,
          ev_x2 = 18, ev_challenge = 2\<rparr>\<rparr>"
      13
      "\<lparr>Verifier_dlog = toy_dlog, Verifier_s1 = 3, Verifier_s2 = 6,
        Verifier_EqualityVerifier = Some \<lparr>ev_g1 = 2, ev_g2 = 4, ev_y1 = 9, ev_y2 = 12,
          ev_x1 = 8, ev_x2 = 18, ev_challenge = 2\<rparr>\<rparr>"
      "\<lparr>Verifier_dlog = toy_dlog, Verifier_s1 = 4, Verifier_s2 = 7,
        Verifier_EqualityVerifier = Some \<lparr>ev_g1 = 2, ev_g2 = 4, ev_y1 = 9, ev_y2 = 12,
          ev_x1 = 8, ev_x2 = 18, ev_challenge = 2\<rparr>\<rparr>"
      toy_env "toy_env\<lparr>LoadPseudonymsysCAPubKey := (7, 1)\<rparr>"
      "NewCredential 4 12 4 18 (8, 6, 2, 7) (16, 4, 2, 8)" "NewOrgPubKeys 8 18"]
  by simp

section \<open>Which organization's keys are loaded\<close>

lemma Issuer_VerifyAuthentication_secrets:
  "OrgCredentialIssuer_VerifyAuthentication org z rnds = Some (res, org') \<Longrightarrow>
     Issuer_s1 org' = Issuer_s1 org \<and> Issuer_s2 org' = Issuer_s2 org \<and>
     Issuer_dlog org' = Issuer_dlog org"
  by (auto simp: OrgCredentialIssuer_VerifyAuthentication_def Let_def
      split: option.splits if_splits prod.splits)

lemma Issuer_GetEqualityProofData_secrets:
  "OrgCredentialIssuer_GetEqualityProofData org c1 c2 = Some (zs, org') \<Longrightarrow>
     Issuer_s1 org' = Issuer_s1 org \<and> Issuer_s2 org' = Issuer_s2 org \<and>
     Issuer_dlog org' = Issuer_dlog org"
  by (auto simp: OrgCredentialIssuer_GetEqualityProofData_def Let_def split: option.splits)

lemma issue_loads_org1:
  "case PseudonymsysIssueCredential env rnd rnds req strm of
     (out, strm', org') \<Rightarrow>
       (Issuer_s1 org', Issuer_s2 org') = LoadPseudonymsysOrgSecrets env ''org1'' ''dlog''"
  by (auto simp: PseudonymsysIssueCredential_def Let_def case_prod_beta
        NewOrgCredentialIssuer_def OrgCredentialIssuer_GetAuthenticationChallenge_def
      simp del: getter_simps
      dest!: Issuer_VerifyAuthentication_secrets Issuer_GetEqualityProofData_secrets
      split: option.splits sum.splits prod.splits)

lemma transfer_loads_org1:
  "case PseudonymsysTransferCredential env rnd req strm of
     (out, strm', org') \<Rightarrow>
       (Verifier_s1 org', Verifier_s2 org') = LoadPseudonymsysOrgSecrets env ''org1'' ''dlog''"
  by (auto simp: PseudonymsysTransferCredential_def Let_def case_prod_beta
        NewOrgCredentialVerifier_def OrgCredentialVerifier_GetAuthenticationChallenge_def
      simp del: getter_simps
      split: option.splits sum.splits prod.splits)

lemma transfer_org_name:
  assumes "LoadPseudonymsysOrgPubKeys env name = LoadPseudonymsysOrgPubKeys env (OrgName data)"
  shows "PseudonymsysTransferCredential env rnd
           \<lparr>Content = Some (Message_PseudonymsysTransferCredentialData (data\<lparr>OrgName := name\<rparr>)),
            ProtocolError = e\<rparr> strm =
         PseudonymsysTransferCredential env rnd
           \<lparr>Content = Some (Message_PseudonymsysTransferCredentialData data),
            ProtocolError = e\<rparr> strm"
  using assms
  by (simp add: PseudonymsysTransferCredential_def Let_def
      cong: option.case_cong prod.case_cong sum.case_cong)


text \<open>
  Claim C9.  The issuance and the transfer handler build their role object with the
  secrets of \<open>org1\<close>, whatever the request and the stream hold; in the transfer handler
  the request's \<open>org_name\<close> is used only to load the issuer public keys.
\<close>

theorem C9_secrets_of_org1:
  "(case PseudonymsysIssueCredential env rnd rnds req strm of
      (out, strm', org') \<Rightarrow>
        (Issuer_s1 org', Issuer_s2 org') = LoadPseudonymsysOrgSecrets env ''org1'' ''dlog'') \<and>
   (case PseudonymsysTransferCredential env rnd req strm of
      (out, strm', org') \<Rightarrow>
        (Verifier_s1 org', Verifier_s2 org') = LoadPseudonymsysOrgSecrets env ''org1'' ''dlog'') \<and>
   (LoadPseudonymsysOrgPubKeys env name = LoadPseudonymsysOrgPubKeys env (OrgName data) \<longrightarrow>
      PseudonymsysTransferCredential env rnd
        \<lparr>Content = Some (Message_PseudonymsysTransferCredentialData (data\<lparr>OrgName := name\<rparr>)),
         ProtocolError = e\<rparr> strm =
      PseudonymsysTransferCredential env rnd
        \<lparr>Content = Some (Message_PseudonymsysTransferCredentialData data),
         ProtocolError = e\<rparr> strm)"
  using issue_loads_org1 [of env rnd rnds req strm] transfer_loads_org1 [of env rnd req strm]
    transfer_org_name [of env name data rnd e strm]
  by blast

text \<open>A request that names \<open>org2\<close>: the role object holds the secrets \<open>(3, 6)\<close> of \<open>org1\<close>, and
  naming \<open>org3\<close>, which has the same public keys in the toy configuration, gives the same
  run.\<close>

theorem C9_secrets_of_org1_witness:
  "(case PseudonymsysTransferCredential toy_env 2 (toy_transfer_req ''org2'')
          (toy_stream [msg (Message_Bigint [2])]) of
      (out, strm', org') \<Rightarrow> (Verifier_s1 org', Verifier_s2 org') = (3, 6)) \<and>
   PseudonymsysTransferCredential toy_env 2 (toy_transfer_req ''org3'')
     (toy_stream [msg (Message_Bigint [2])]) =
   PseudonymsysTransferCredential toy_env 2 (toy_transfer_req ''org2'')
     (toy_stream [msg (Message_Bigint [2])])"
proof -
  have k: "LoadPseudonymsysOrgPubKeys toy_env ''org3'' =
           LoadPseudonymsysOrgPubKeys toy_env (OrgName (toy_transfer_data ''org2''))"
    by (simp add: toy_env_def toy_transfer_data_def)
  have n: "toy_transfer_data ''org2''\<lparr>OrgName := ''org3''\<rparr> = toy_transfer_data ''org3''"
    by (simp add: toy_transfer_data_def)
  from C9_secrets_of_org1 [of toy_env 2 "(1, 1, 4, 7)" "toy_transfer_req ''org2''"
      "toy_stream [msg (Message_Bigint [2])]" "''org3''" "toy_transfer_data ''org2''" "[]"] k
  show ?thesis
    by (simp add: n toy_transfer_req_def toy_secrets)
qed

section \<open>After a role error\<close>

lemma nymgen_after_role_error:
  assumes "GetPseudonymsysNymGenProofRandomData req = Some d"
    and "\<not> VerifySignature env (LoadPseudonymsysCAPubKey env)
           (Hash env [SetBytes (NymGen_A1 d), SetBytes (NymGen_B1 d)])
           (SetBytes (NymGen_R d)) (SetBytes (NymGen_S d))"
    and "send_errors strm = []"
  shows "case PseudonymsysGenerateNym env rnd req strm of
           (out, strm', org') \<Rightarrow>
             outbox strm' = outbox strm @
               [\<lparr>Content = Some (Message_PedersenDecommitment []),
                 ProtocolError = ''INVALID_CA_SIGNATURE''\<rparr>] \<and>
             inbox strm' = tl (inbox strm) \<and>
             (inbox strm = [] \<longrightarrow> out = Returned (Some ''EOF'')) \<and>
             (\<forall>e. hd (inbox strm) = Inl e \<and> inbox strm \<noteq> [] \<longrightarrow> out = Returned (Some e))"
  using assms
  by (auto simp: PseudonymsysGenerateNym_def Let_def case_prod_beta send_Nil receive_def
        NewOrgNymGen_def OrgNymGen_GetChallenge_def OrgNymGen_Verify_def
      simp del: getter_simps
      split: list.splits sum.splits option.splits)

lemma issue_after_role_error:
  assumes "GetSchnorrProofRandomData req = Some d"
    and "send_errors strm = []"
    and "inbox strm = Inr req2 # rest"
    and "GetBigint req2 = Some zb"
    and "\<not> SchnorrVerifier_Verify (DLog_p (LoadDLog env ''pseudonymsys''))
           \<lparr>sv_a = SetBytes (Schnorr_A d), sv_b = SetBytes (Schnorr_B d),
            sv_x = SetBytes (Schnorr_X d),
            sv_challenge = rnd mod DLog_q (LoadDLog env ''pseudonymsys'')\<rparr> (SetBytes zb)"
  shows "case PseudonymsysIssueCredential env rnd rnds req strm of
           (out, strm', org') \<Rightarrow>
             outbox strm' = outbox strm @
               [\<lparr>Content = Some (Message_Bigint
                   (Bytes (rnd mod DLog_q (LoadDLog env ''pseudonymsys'')))),
                 ProtocolError = []\<rparr>,
                \<lparr>Content = Some (Message_PseudonymsysIssueProofRandomData
                   \<lparr>Issue_X11 = [], Issue_X12 = [], Issue_X21 = [], Issue_X22 = [],
                    Issue_A = [], Issue_B = []\<rparr>),
                 ProtocolError = ''AUTH_FAILED''\<rparr>] \<and>
             inbox strm' = tl rest \<and>
             (rest = [] \<longrightarrow> out = Returned (Some ''EOF'')) \<and>
             (\<forall>e. hd rest = Inl e \<and> rest \<noteq> [] \<longrightarrow> out = Returned (Some e))"
  using assms
  by (auto simp: PseudonymsysIssueCredential_def Let_def case_prod_beta send_Nil receive_def
        NewOrgCredentialIssuer_def OrgCredentialIssuer_GetAuthenticationChallenge_def
        OrgCredentialIssuer_VerifyAuthentication_def
        OrgCredentialIssuer_GetEqualityProofData_def
      simp del: getter_simps
      split: list.splits sum.splits option.splits)


text \<open>
  Claim C3, as stated: after a failed role call the handler sends a response of the
  expected variant with \<open>protocol_error\<close> set, and performs no further receive or role
  call.  The first half holds.  The second fails: with a forged CA signature and a
  client that sends its \<open>SchnorrProofData\<close> all the same, the handler sends the error
  response, then receives that message (the inbox is empty afterwards) and calls
  \<open>Verify\<close> on the role object, which never stored a state.
\<close>

theorem C3_counterexample:
  "PseudonymsysGenerateNym toy_env 2 toy_nymgen_forged
     (toy_stream [msg (Message_SchnorrProofData [2])]) =
   (RoleStateMissing,
    \<lparr>inbox = [], send_errors = [],
     outbox = [\<lparr>Content = Some (Message_PedersenDecommitment []),
                ProtocolError = ''INVALID_CA_SIGNATURE''\<rparr>]\<rparr>,
    \<lparr>NymGen_dlog = toy_dlog, NymGen_caPubKey = (3, 5), NymGen_EqualityVerifier = None\<rparr>) \<and>
   inbox (toy_stream [msg (Message_SchnorrProofData [2])]) =
     [Inr (msg (Message_SchnorrProofData [2]))]"
  by (simp add: PseudonymsysGenerateNym_def Let_def send_def receive_def NewOrgNymGen_def
        OrgNymGen_GetChallenge_def OrgNymGen_Verify_def toy_env_def toy_nymgen_forged_def
        toy_nymgen_data_def toy_stream_def msg_def SetBytes_single)

text \<open>
  Claim C3, amended.  When \<open>GetChallenge\<close> fails in \<open>PseudonymsysGenerateNym\<close>, or
  \<open>VerifyAuthentication\<close> in \<open>PseudonymsysIssueCredential\<close>, the handler sends a response of
  the expected variant with an empty payload and \<open>protocol_error\<close> set to the error.  It
  does not return on it: it performs the next receive, and when that receive fails it
  returns the transport error (\<open>EOF\<close> on a closed stream).
\<close>

theorem C3_role_error_then_receive:
  "(GetPseudonymsysNymGenProofRandomData req = Some d \<and>
    \<not> VerifySignature env (LoadPseudonymsysCAPubKey env)
        (Hash env [SetBytes (NymGen_A1 d), SetBytes (NymGen_B1 d)])
        (SetBytes (NymGen_R d)) (SetBytes (NymGen_S d)) \<and>
    send_errors strm = [] \<longrightarrow>
    (case PseudonymsysGenerateNym env rnd req strm of
       (out, strm', org') \<Rightarrow>
         outbox strm' = outbox strm @
           [\<lparr>Content = Some (Message_PedersenDecommitment []),
             ProtocolError = ''INVALID_CA_SIGNATURE''\<rparr>] \<and>
         inbox strm' = tl (inbox strm) \<and>
         (inbox strm = [] \<longrightarrow> out = Returned (Some ''EOF'')) \<and>
         (\<forall>e. hd (inbox strm) = Inl e \<and> inbox strm \<noteq> [] \<longrightarrow> out = Returned (Some e)))) \<and>
   (GetSchnorrProofRandomData ireq = Some idata \<and>
    send_errors istrm = [] \<and>
    inbox istrm = Inr req2 # rest \<and>
    GetBigint req2 = Some zb \<and>
    \<not> SchnorrVerifier_Verify (DLog_p (LoadDLog env ''pseudonymsys''))
        \<lparr>sv_a = SetBytes (Schnorr_A idata), sv_b = SetBytes (Schnorr_B idata),
         sv_x = SetBytes (Schnorr_X idata),
         sv_challenge = irnd mod DLog_q (LoadDLog env ''pseudonymsys'')\<rparr> (SetBytes zb) \<longrightarrow>
    (case PseudonymsysIssueCredential env irnd rnds ireq istrm of
       (out, strm', org') \<Rightarrow>
         outbox strm' = outbox istrm @
           [\<lparr>Content = Some (Message_Bigint
               (Bytes (irnd mod DLog_q (LoadDLog env ''pseudonymsys'')))),
             ProtocolError = []\<rparr>,
            \<lparr>Content = Some (Message_PseudonymsysIssueProofRandomData
               \<lparr>Issue_X11 = [], Issue_X12 = [], Issue_X21 = [], Issue_X22 = [],
                Issue_A = [], Issue_B = []\<rparr>),
             ProtocolError = ''AUTH_FAILED''\<rparr>] \<and>
         inbox strm' = tl rest \<and>
         (rest = [] \<longrightarrow> out = Returned (Some ''EOF'')) \<and>
         (\<forall>e. hd rest = Inl e \<and> rest \<noteq> [] \<longrightarrow> out = Returned (Some e))))"
proof (intro conjI impI)
  assume "GetPseudonymsysNymGenProofRandomData req = Some d \<and>
    \<not> VerifySignature env (LoadPseudonymsysCAPubKey env)
        (Hash env [SetBytes (NymGen_A1 d), SetBytes (NymGen_B1 d)])
        (SetBytes (NymGen_R d)) (SetBytes (NymGen_S d)) \<and>
    send_errors strm = []"
  then show "case PseudonymsysGenerateNym env rnd req strm of
       (out, strm', org') \<Rightarrow>
         outbox strm' = outbox strm @
           [\<lparr>Content = Some (Message_PedersenDecommitment []),
             ProtocolError = ''INVALID_CA_SIGNATURE''\<rparr>] \<and>
         inbox strm' = tl (inbox strm) \<and>
         (inbox strm = [] \<longrightarrow> out = Returned (Some ''EOF'')) \<and>
         (\<forall>e. hd (inbox strm) = Inl e \<and> inbox strm \<noteq> [] \<longrightarrow> out = Returned (Some e))"
    by (elim conjE) (rule nymgen_after_role_error; assumption)
next
  assume "GetSchnorrProofRandomData ireq = Some idata \<and>
    send_errors istrm = [] \<and>
    inbox istrm = Inr req2 # rest \<and>
    GetBigint req2 = Some zb \<and>
    \<not> SchnorrVerifier_Verify (DLog_p (LoadDLog env ''pseudonymsys''))
        \<lparr>sv_a = SetBytes (Schnorr_A idata), sv_b = SetBytes (Schnorr_B idata),
         sv_x = SetBytes (Schnorr_X idata),
         sv_challenge = irnd mod DLog_q (LoadDLog env ''pseudonymsys'')\<rparr> (SetBytes zb)"
  then show "case PseudonymsysIssueCredential env irnd rnds ireq istrm of
       (out, strm', org') \<Rightarrow>
         outbox strm' = outbox istrm @
           [\<lparr>Content = Some (Message_Bigint
               (Bytes (irnd mod DLog_q (LoadDLog env ''pseudonymsys'')))),
             ProtocolError = []\<rparr>,
            \<lparr>Content = Some (Message_PseudonymsysIssueProofRandomData
               \<lparr>Issue_X11 = [], Issue_X12 = [], Issue_X21 = [], Issue_X22 = [],
                Issue_A = [], Issue_B = []\<rparr>),
             ProtocolError = ''AUTH_FAILED''\<rparr>] \<and>
         inbox strm' = tl rest \<and>
         (rest = [] \<longrightarrow> out = Returned (Some ''EOF'')) \<and>
         (\<forall>e. hd rest = Inl e \<and> rest \<noteq> [] \<longrightarrow> out = Returned (Some e))"
    by (elim conjE) (rule issue_after_role_error; assumption)
qed


text \<open>The forged request on a stream the client has closed, and an issuance run with the
  wrong response \<open>z = 3\<close>, again on a stream closed after it.\<close>

theorem C3_role_error_then_receive_witness:
  "(case PseudonymsysGenerateNym toy_env 2 toy_nymgen_forged (toy_stream []) of
      (out, strm', org') \<Rightarrow>
        outbox strm' = [\<lparr>Content = Some (Message_PedersenDecommitment []),
                         ProtocolError = ''INVALID_CA_SIGNATURE''\<rparr>] \<and>
        out = Returned (Some ''EOF'')) \<and>
   (case PseudonymsysIssueCredential toy_env 2 (1, 1, 4, 7) toy_issue_req
           (toy_stream [msg (Message_Bigint [3])]) of
      (out, strm', org') \<Rightarrow>
        outbox strm' =
          [msg (Message_Bigint [2]),
           \<lparr>Content = Some (Message_PseudonymsysIssueProofRandomData
               \<lparr>Issue_X11 = [], Issue_X12 = [], Issue_X21 = [], Issue_X22 = [],
                Issue_A = [], Issue_B = []\<rparr>),
            ProtocolError = ''AUTH_FAILED''\<rparr>] \<and>
        inbox strm' = [] \<and>
        out = Returned (Some ''EOF''))"
proof -
  let ?d = "toy_nymgen_data\<lparr>NymGen_R := [3], NymGen_S := [7]\<rparr>"
  let ?i = "\<lparr>Schnorr_X = [8], Schnorr_A = [2], Schnorr_B = [9]\<rparr>"
  have a: "GetPseudonymsysNymGenProofRandomData toy_nymgen_forged = Some ?d \<and>
    \<not> VerifySignature toy_env (LoadPseudonymsysCAPubKey toy_env)
        (Hash toy_env [SetBytes (NymGen_A1 ?d), SetBytes (NymGen_B1 ?d)])
        (SetBytes (NymGen_R ?d)) (SetBytes (NymGen_S ?d)) \<and>
    send_errors (toy_stream []) = []"
    by (simp add: toy_nymgen_forged_def toy_nymgen_data_def toy_env_def toy_stream_def
          SetBytes_single)
  have b: "GetSchnorrProofRandomData toy_issue_req = Some ?i \<and>
    send_errors (toy_stream [msg (Message_Bigint [3])]) = [] \<and>
    inbox (toy_stream [msg (Message_Bigint [3])]) = Inr (msg (Message_Bigint [3])) # [] \<and>
    GetBigint (msg (Message_Bigint [3])) = Some [3] \<and>
    \<not> SchnorrVerifier_Verify (DLog_p (LoadDLog toy_env ''pseudonymsys''))
        \<lparr>sv_a = SetBytes (Schnorr_A ?i), sv_b = SetBytes (Schnorr_B ?i),
         sv_x = SetBytes (Schnorr_X ?i),
         sv_challenge = 2 mod DLog_q (LoadDLog toy_env ''pseudonymsys'')\<rparr> (SetBytes [3])"
    by (simp add: toy_issue_req_def toy_stream_def msg_def toy_loads SetBytes_single
          SchnorrVerifier_Verify_def)
  note th = C3_role_error_then_receive [where req = toy_nymgen_forged and d = ?d
      and env = toy_env and strm = "toy_stream []" and rnd = 2 and ireq = toy_issue_req
      and idata = ?i and istrm = "toy_stream [msg (Message_Bigint [3])]"
      and ?req2.0 = "msg (Message_Bigint [3])" and rest = "[]" and zb = "[3]" and irnd = 2
      and rnds = "(1, 1, 4, 7)"]
  from th [THEN conjunct1, THEN mp, OF a] th [THEN conjunct2, THEN mp, OF b]
  show ?thesis
    by (simp add: toy_stream_def toy_loads msg_def Bytes_small split: prod.splits)
qed

section \<open>Out-of-range integers\<close>

text \<open>
  Claim C5, as stated: a received exponent \<open>z \<ge> q\<close> is answered with a terminal message
  with \<open>protocol_error\<close> set, and the verification is not run on it.  The handlers have no
  range check.  In the toy group, \<open>q = 11\<close>, the honest response to the challenge 2 is
  \<open>z = 2\<close>; the client sends \<open>z = 13\<close> instead.  The verification runs on 13 and accepts,
  since \<open>13 \<equiv> 2\<close> modulo the order of the bases, and the reply is \<open>Status{success: true}\<close>
  with an empty \<open>protocol_error\<close>.
\<close>

theorem C5_counterexample:
  "PseudonymsysGenerateNym toy_env 2 toy_nymgen_req
     (toy_stream [msg (Message_SchnorrProofData [13])]) =
   (Returned None,
    \<lparr>inbox = [], send_errors = [],
     outbox = [\<lparr>Content = Some (Message_PedersenDecommitment [2]), ProtocolError = []\<rparr>,
               \<lparr>Content = Some (Message_Status True), ProtocolError = []\<rparr>]\<rparr>,
    \<lparr>NymGen_dlog = toy_dlog, NymGen_caPubKey = (3, 5),
     NymGen_EqualityVerifier = Some \<lparr>ev_g1 = 2, ev_g2 = 4, ev_y1 = 9, ev_y2 = 12, ev_x1 = 8,
       ev_x2 = 18, ev_challenge = 2\<rparr>\<rparr>) \<and>
   DLog_q toy_dlog \<le> SetBytes [13]"
  by (simp add: PseudonymsysGenerateNym_def Let_def send_def receive_def NewOrgNymGen_def
        OrgNymGen_GetChallenge_def OrgNymGen_Verify_def EqualityVerifier_Verify_def
        toy_env_def toy_dlog_def toy_nymgen_req_def toy_nymgen_data_def toy_stream_def msg_def
        SetBytes_single Bytes_small)

lemma nymgen_status_unchecked:
  assumes "GetPseudonymsysNymGenProofRandomData req = Some d"
    and "OrgNymGen_GetChallenge env
           (NewOrgNymGen (LoadDLog env ''pseudonymsys'') (fst (LoadPseudonymsysCAPubKey env))
              (snd (LoadPseudonymsysCAPubKey env)))
           (SetBytes (NymGen_A1 d)) (SetBytes (NymGen_A2 d)) (SetBytes (NymGen_B1 d))
           (SetBytes (NymGen_B2 d)) (SetBytes (NymGen_X1 d)) (SetBytes (NymGen_X2 d))
           (SetBytes (NymGen_R d)) (SetBytes (NymGen_S d)) rnd = (res, org1)"
    and "send_errors strm = []"
    and "inbox strm = Inr req2 # rest"
    and "GetSchnorrProofData req2 = Some zb"
    and "OrgNymGen_Verify org1 (SetBytes zb) = Some valid"
  shows "case PseudonymsysGenerateNym env rnd req strm of
           (out, strm', org') \<Rightarrow>
             out = Returned None \<and>
             last (outbox strm') =
               \<lparr>Content = Some (Message_Status valid), ProtocolError = []\<rparr>"
  using assms
  by (simp add: PseudonymsysGenerateNym_def Let_def case_prod_beta send_Nil receive_Cons
      del: getter_simps)

lemma transfer_status_unchecked:
  assumes "GetPseudonymsysTransferCredentialData req = Some data"
    and "Credential data = Some pc" and "T1 pc = Some pt1" and "T2 pc = Some pt2"
    and "credential = NewCredential (SetBytes (SmallAToGamma pc)) (SetBytes (SmallBToGamma pc))
           (SetBytes (AToGamma pc)) (SetBytes (BToGamma pc))
           (SetBytes (Transcript_A pt1), SetBytes (Transcript_B pt1),
            SetBytes (Transcript_Hash pt1), SetBytes (Transcript_ZAlpha pt1))
           (SetBytes (Transcript_A pt2), SetBytes (Transcript_B pt2),
            SetBytes (Transcript_Hash pt2), SetBytes (Transcript_ZAlpha pt2))"
    and "OrgCredentialVerifier_GetAuthenticationChallenge
           (NewOrgCredentialVerifier (LoadDLog env ''pseudonymsys'')
              (fst (LoadPseudonymsysOrgSecrets env ''org1'' ''dlog''))
              (snd (LoadPseudonymsysOrgSecrets env ''org1'' ''dlog'')))
           (SetBytes (NymA data)) (SetBytes (NymB data))
           (Cred_SmallAToGamma credential) (Cred_SmallBToGamma credential)
           (SetBytes (Transfer_X1 data)) (SetBytes (Transfer_X2 data)) rnd = (c, org1)"
    and "send_errors strm = []"
    and "inbox strm = Inr req2 # rest"
    and "GetBigint req2 = Some zb"
    and "OrgCredentialVerifier_VerifyAuthentication env org1 (SetBytes zb) credential
           (NewOrgPubKeys (fst (LoadPseudonymsysOrgPubKeys env (OrgName data)))
              (snd (LoadPseudonymsysOrgPubKeys env (OrgName data)))) = Some verified"
  shows "case PseudonymsysTransferCredential env rnd req strm of
           (out, strm', org') \<Rightarrow>
             out = Returned None \<and>
             last (outbox strm') =
               \<lparr>Content = Some (Message_Status verified), ProtocolError = []\<rparr>"
  using assms
  by (simp add: PseudonymsysTransferCredential_def Let_def case_prod_beta send_Nil receive_Cons
      del: getter_simps)


text \<open>
  Claim C5, amended.  The handlers make no range check on a received integer.  Whatever
  its value, also \<open>z \<ge> q\<close>, the integer read from the final message is passed to the
  role's verification as received, and the reply is \<open>Status\<close> with the result of that
  verification as \<open>success\<close> and an empty \<open>protocol_error\<close>.
\<close>

theorem C5_no_range_check:
  "(GetPseudonymsysNymGenProofRandomData req = Some d \<and>
    OrgNymGen_GetChallenge env
      (NewOrgNymGen (LoadDLog env ''pseudonymsys'') (fst (LoadPseudonymsysCAPubKey env))
         (snd (LoadPseudonymsysCAPubKey env)))
      (SetBytes (NymGen_A1 d)) (SetBytes (NymGen_A2 d)) (SetBytes (NymGen_B1 d))
      (SetBytes (NymGen_B2 d)) (SetBytes (NymGen_X1 d)) (SetBytes (NymGen_X2 d))
      (SetBytes (NymGen_R d)) (SetBytes (NymGen_S d)) rnd = (res, org1) \<and>
    send_errors strm = [] \<and>
    inbox strm = Inr req2 # rest \<and>
    GetSchnorrProofData req2 = Some zb \<and>
    OrgNymGen_Verify org1 (SetBytes zb) = Some valid \<longrightarrow>
    (case PseudonymsysGenerateNym env rnd req strm of
       (out, strm', org') \<Rightarrow>
         out = Returned None \<and>
         last (outbox strm') = \<lparr>Content = Some (Message_Status valid), ProtocolError = []\<rparr>)) \<and>
   (GetPseudonymsysTransferCredentialData treq = Some data \<and>
    Credential data = Some pc \<and> T1 pc = Some pt1 \<and> T2 pc = Some pt2 \<and>
    credential = NewCredential (SetBytes (SmallAToGamma pc)) (SetBytes (SmallBToGamma pc))
      (SetBytes (AToGamma pc)) (SetBytes (BToGamma pc))
      (SetBytes (Transcript_A pt1), SetBytes (Transcript_B pt1),
       SetBytes (Transcript_Hash pt1), SetBytes (Transcript_ZAlpha pt1))
      (SetBytes (Transcript_A pt2), SetBytes (Transcript_B pt2),
       SetBytes (Transcript_Hash pt2), SetBytes (Transcript_ZAlpha pt2)) \<and>
    OrgCredentialVerifier_GetAuthenticationChallenge
      (NewOrgCredentialVerifier (LoadDLog env ''pseudonymsys'')
         (fst (LoadPseudonymsysOrgSecrets env ''org1'' ''dlog''))
         (snd (LoadPseudonymsysOrgSecrets env ''org1'' ''dlog'')))
      (SetBytes (NymA data)) (SetBytes (NymB data))
      (Cred_SmallAToGamma credential) (Cred_SmallBToGamma credential)
      (SetBytes (Transfer_X1 data)) (SetBytes (Transfer_X2 data)) trnd = (c, ver1) \<and>
    send_errors tstrm = [] \<and>
    inbox tstrm = Inr treq2 # trest \<and>
    GetBigint treq2 = Some tzb \<and>
    OrgCredentialVerifier_VerifyAuthentication env ver1 (SetBytes tzb) credential
      (NewOrgPubKeys (fst (LoadPseudonymsysOrgPubKeys env (OrgName data)))
         (snd (LoadPseudonymsysOrgPubKeys env (OrgName data)))) = Some verified \<longrightarrow>
    (case PseudonymsysTransferCredential env trnd treq tstrm of
       (out, strm', org') \<Rightarrow>
         out = Returned None \<and>
         last (outbox strm') = \<lparr>Content = Some (Message_Status verified), ProtocolError = []\<rparr>))"
proof (intro conjI impI)
  assume "GetPseudonymsysNymGenProofRandomData req = Some d \<and>
    OrgNymGen_GetChallenge env
      (NewOrgNymGen (LoadDLog env ''pseudonymsys'') (fst (LoadPseudonymsysCAPubKey env))
         (snd (LoadPseudonymsysCAPubKey env)))
      (SetBytes (NymGen_A1 d)) (SetBytes (NymGen_A2 d)) (SetBytes (NymGen_B1 d))
      (SetBytes (NymGen_B2 d)) (SetBytes (NymGen_X1 d)) (SetBytes (NymGen_X2 d))
      (SetBytes (NymGen_R d)) (SetBytes (NymGen_S d)) rnd = (res, org1) \<and>
    send_errors strm = [] \<and>
    inbox strm = Inr req2 # rest \<and>
    GetSchnorrProofData req2 = Some zb \<and>
    OrgNymGen_Verify org1 (SetBytes zb) = Some valid"
  then show "case PseudonymsysGenerateNym env rnd req strm of
       (out, strm', org') \<Rightarrow>
         out = Returned None \<and>
         last (outbox strm') = \<lparr>Content = Some (Message_Status valid), ProtocolError = []\<rparr>"
    by (elim conjE) (rule nymgen_status_unchecked; assumption)
next
  assume "GetPseudonymsysTransferCredentialData treq = Some data \<and>
    Credential data = Some pc \<and> T1 pc = Some pt1 \<and> T2 pc = Some pt2 \<and>
    credential = NewCredential (SetBytes (SmallAToGamma pc)) (SetBytes (SmallBToGamma pc))
      (SetBytes (AToGamma pc)) (SetBytes (BToGamma pc))
      (SetBytes (Transcript_A pt1), SetBytes (Transcript_B pt1),
       SetBytes (Transcript_Hash pt1), SetBytes (Transcript_ZAlpha pt1))
      (SetBytes (Transcript_A pt2), SetBytes (Transcript_B pt2),
       SetBytes (Transcript_Hash pt2), SetBytes (Transcript_ZAlpha pt2)) \<and>
    OrgCredentialVerifier_GetAuthenticationChallenge
      (NewOrgCredentialVerifier (LoadDLog env ''pseudonymsys'')
         (fst (LoadPseudonymsysOrgSecrets env ''org1'' ''dlog''))
         (snd (LoadPseudonymsysOrgSecrets env ''org1'' ''dlog'')))
      (SetBytes (NymA data)) (SetBytes (NymB data))
      (Cred_SmallAToGamma credential) (Cred_SmallBToGamma credential)
      (SetBytes (Transfer_X1 data)) (SetBytes (Transfer_X2 data)) trnd = (c, ver1) \<and>
    send_errors tstrm = [] \<and>
    inbox tstrm = Inr treq2 # trest \<and>
    GetBigint treq2 = Some tzb \<and>
    OrgCredentialVerifier_VerifyAuthentication env ver1 (SetBytes tzb) credential
      (NewOrgPubKeys (fst (LoadPseudonymsysOrgPubKeys env (OrgName data)))
         (snd (LoadPseudonymsysOrgPubKeys env (OrgName data)))) = Some verified"
  then show "case PseudonymsysTransferCredential env trnd treq tstrm of
       (out, strm', org') \<Rightarrow>
         out = Returned None \<and>
         last (outbox strm') = \<lparr>Content = Some (Message_Status verified), ProtocolError = []\<rparr>"
    by (elim conjE) (rule transfer_status_unchecked; assumption)
qed

text \<open>The toy runs of both handlers with the response \<open>z = 13\<close>, above \<open>q = 11\<close>: both end in
  \<open>Status{success: true}\<close>.\<close>

theorem C5_no_range_check_witness:
  "DLog_q toy_dlog \<le> SetBytes [13] \<and>
   (case PseudonymsysGenerateNym toy_env 2 toy_nymgen_req
           (toy_stream [msg (Message_SchnorrProofData [13])]) of
      (out, strm', org') \<Rightarrow>
        out = Returned None \<and> last (outbox strm') = msg (Message_Status True)) \<and>
   (case PseudonymsysTransferCredential toy_env 2 (toy_transfer_req ''org1'')
           (toy_stream [msg (Message_Bigint [13])]) of
      (out, strm', org') \<Rightarrow>
        out = Returned None \<and> last (outbox strm') = msg (Message_Status True))"
proof -
  let ?v = "\<lparr>ev_g1 = 2, ev_g2 = 4, ev_y1 = 9, ev_y2 = 12, ev_x1 = 8, ev_x2 = 18,
             ev_challenge = 2\<rparr>"
  let ?org1 = "\<lparr>NymGen_dlog = toy_dlog, NymGen_caPubKey = (3, 5),
                NymGen_EqualityVerifier = Some ?v\<rparr>"
  let ?ver1 = "\<lparr>Verifier_dlog = toy_dlog, Verifier_s1 = 3, Verifier_s2 = 6,
                Verifier_EqualityVerifier = Some ?v\<rparr>"
  let ?pt1 = "\<lparr>Transcript_A = [8], Transcript_B = [6], Transcript_Hash = [2],
               Transcript_ZAlpha = [7]\<rparr>"
  let ?pt2 = "\<lparr>Transcript_A = [16], Transcript_B = [4], Transcript_Hash = [2],
               Transcript_ZAlpha = [8]\<rparr>"
  let ?cred = "NewCredential 4 12 4 18 (8, 6, 2, 7) (16, 4, 2, 8)"
  have a: "GetPseudonymsysNymGenProofRandomData toy_nymgen_req = Some toy_nymgen_data \<and>
    OrgNymGen_GetChallenge toy_env
      (NewOrgNymGen (LoadDLog toy_env ''pseudonymsys'') (fst (LoadPseudonymsysCAPubKey toy_env))
         (snd (LoadPseudonymsysCAPubKey toy_env)))
      (SetBytes (NymGen_A1 toy_nymgen_data)) (SetBytes (NymGen_A2 toy_nymgen_data))
      (SetBytes (NymGen_B1 toy_nymgen_data)) (SetBytes (NymGen_B2 toy_nymgen_data))
      (SetBytes (NymGen_X1 toy_nymgen_data)) (SetBytes (NymGen_X2 toy_nymgen_data))
      (SetBytes (NymGen_R toy_nymgen_data)) (SetBytes (NymGen_S toy_nymgen_data)) 2 =
      (Inr 2, ?org1) \<and>
    send_errors (toy_stream [msg (Message_SchnorrProofData [13])]) = [] \<and>
    inbox (toy_stream [msg (Message_SchnorrProofData [13])]) =
      Inr (msg (Message_SchnorrProofData [13])) # [] \<and>
    GetSchnorrProofData (msg (Message_SchnorrProofData [13])) = Some [13] \<and>
    OrgNymGen_Verify ?org1 (SetBytes [13]) = Some True"
    by (simp add: toy_nymgen_req_def toy_nymgen_fields toy_loads toy_stream_def msg_def
          NewOrgNymGen_def OrgNymGen_GetChallenge_def OrgNymGen_Verify_def
          EqualityVerifier_Verify_def SetBytes_single toy_env_def)
  have b: "GetPseudonymsysTransferCredentialData (toy_transfer_req ''org1'') =
      Some (toy_transfer_data ''org1'') \<and>
    Credential (toy_transfer_data ''org1'') = Some toy_credential \<and>
    T1 toy_credential = Some ?pt1 \<and> T2 toy_credential = Some ?pt2 \<and>
    ?cred = NewCredential (SetBytes (SmallAToGamma toy_credential))
      (SetBytes (SmallBToGamma toy_credential))
      (SetBytes (AToGamma toy_credential)) (SetBytes (BToGamma toy_credential))
      (SetBytes (Transcript_A ?pt1), SetBytes (Transcript_B ?pt1),
       SetBytes (Transcript_Hash ?pt1), SetBytes (Transcript_ZAlpha ?pt1))
      (SetBytes (Transcript_A ?pt2), SetBytes (Transcript_B ?pt2),
       SetBytes (Transcript_Hash ?pt2), SetBytes (Transcript_ZAlpha ?pt2)) \<and>
    OrgCredentialVerifier_GetAuthenticationChallenge
      (NewOrgCredentialVerifier (LoadDLog toy_env ''pseudonymsys'')
         (fst (LoadPseudonymsysOrgSecrets toy_env ''org1'' ''dlog''))
         (snd (LoadPseudonymsysOrgSecrets toy_env ''org1'' ''dlog'')))
      (SetBytes (NymA (toy_transfer_data ''org1''))) (SetBytes (NymB (toy_transfer_data ''org1'')))
      (Cred_SmallAToGamma ?cred) (Cred_SmallBToGamma ?cred)
      (SetBytes (Transfer_X1 (toy_transfer_data ''org1'')))
      (SetBytes (Transfer_X2 (toy_transfer_data ''org1''))) 2 = (2, ?ver1) \<and>
    send_errors (toy_stream [msg (Message_Bigint [13])]) = [] \<and>
    inbox (toy_stream [msg (Message_Bigint [13])]) = Inr (msg (Message_Bigint [13])) # [] \<and>
    GetBigint (msg (Message_Bigint [13])) = Some [13] \<and>
    OrgCredentialVerifier_VerifyAuthentication toy_env ?ver1 (SetBytes [13]) ?cred
      (NewOrgPubKeys (fst (LoadPseudonymsysOrgPubKeys toy_env (OrgName (toy_transfer_data ''org1''))))
         (snd (LoadPseudonymsysOrgPubKeys toy_env (OrgName (toy_transfer_data ''org1''))))) =
      Some True"
    by (simp add: toy_transfer_req_def toy_transfer_data_def toy_credential_def toy_loads
          toy_secrets toy_stream_def msg_def NewCredential_def NewOrgPubKeys_def
          NewOrgCredentialVerifier_def OrgCredentialVerifier_GetAuthenticationChallenge_def
          OrgCredentialVerifier_VerifyAuthentication_def VerifyCredentialTranscripts_def
          VerifyTranscript_def EqualityVerifier_Verify_def SetBytes_single toy_env_def)
  have q: "DLog_q toy_dlog \<le> SetBytes [13]"
    by (simp add: toy_loads SetBytes_single)
  from C5_no_range_check [THEN conjunct1, THEN mp, OF a]
    C5_no_range_check [THEN conjunct2, THEN mp, OF b] q
  show ?thesis
    by (simp add: msg_def split: prod.splits)
qed

section \<open>Messages of another variant\<close>

text \<open>
  Claim C6, as stated: a message of another variant than the one awaited sends the
  handler to the error end with kind \<open>MALFORMED\<close>, without a crash.  The handlers do not
  look at the variant: the getter of the awaited variant returns nil and the next line
  reads a field of it.  In the toy run the client answers the challenge with a \<open>BigInt\<close>
  where \<open>SchnorrProofData\<close> is awaited; the run ends in the nil dereference, and the only
  message sent is the challenge.
\<close>

theorem C6_counterexample:
  "PseudonymsysGenerateNym toy_env 2 toy_nymgen_req (toy_stream [msg (Message_Bigint [2])]) =
   (NilDereference,
    \<lparr>inbox = [], send_errors = [],
     outbox = [\<lparr>Content = Some (Message_PedersenDecommitment [2]), ProtocolError = []\<rparr>]\<rparr>,
    \<lparr>NymGen_dlog = toy_dlog, NymGen_caPubKey = (3, 5),
     NymGen_EqualityVerifier = Some \<lparr>ev_g1 = 2, ev_g2 = 4, ev_y1 = 9, ev_y2 = 12, ev_x1 = 8,
       ev_x2 = 18, ev_challenge = 2\<rparr>\<rparr>)"
  by (simp add: PseudonymsysGenerateNym_def Let_def send_def receive_def NewOrgNymGen_def
        OrgNymGen_GetChallenge_def toy_env_def toy_dlog_def toy_nymgen_req_def
        toy_nymgen_data_def toy_stream_def msg_def SetBytes_single Bytes_small)

lemma nymgen_variant_mismatch:
  assumes "GetPseudonymsysNymGenProofRandomData req = Some d"
    and "send_errors strm = []"
    and "inbox strm = Inr req2 # rest"
    and "GetSchnorrProofData req2 = None"
  shows "case PseudonymsysGenerateNym env rnd req strm of
           (out, strm', org') \<Rightarrow>
             out = NilDereference \<and> inbox strm' = rest \<and>
             length (outbox strm') = length (outbox strm) + 1"
  using assms
  by (simp add: PseudonymsysGenerateNym_def Let_def case_prod_beta send_Nil receive_Cons
      del: getter_simps)

lemma issue_variant_mismatch_round2:
  assumes "GetSchnorrProofRandomData req = Some d"
    and "send_errors strm = []"
    and "inbox strm = Inr req2 # rest"
    and "GetBigint req2 = None"
  shows "case PseudonymsysIssueCredential env rnd rnds req strm of
           (out, strm', org') \<Rightarrow>
             out = NilDereference \<and> inbox strm' = rest \<and>
             length (outbox strm') = length (outbox strm) + 1"
  using assms
  by (simp add: PseudonymsysIssueCredential_def Let_def case_prod_beta send_Nil receive_Cons
      del: getter_simps)

lemma issue_variant_mismatch_round3:
  assumes "GetSchnorrProofRandomData req = Some d"
    and "send_errors strm = []"
    and "inbox strm = Inr req2 # Inr req3 # rest"
    and "GetBigint req2 = Some zb"
    and "GetDoubleBigint req3 = None"
  shows "case PseudonymsysIssueCredential env rnd rnds req strm of
           (out, strm', org') \<Rightarrow>
             out = NilDereference \<and> inbox strm' = rest \<and>
             length (outbox strm') = length (outbox strm) + 2"
  using assms
  by (auto simp: PseudonymsysIssueCredential_def Let_def case_prod_beta send_Nil receive_Cons
        OrgCredentialIssuer_GetAuthenticationChallenge_def
        OrgCredentialIssuer_VerifyAuthentication_def
      simp del: getter_simps
      split: prod.splits sum.splits)


text \<open>
  Claim C6, amended.  When the message received at a round is not of the awaited variant
  (not \<open>SchnorrProofData\<close> in the nymgen handler, not \<open>BigInt\<close> in round 2 or not
  \<open>DoubleBigInt\<close> in round 3 of the issuance handler), the getter returns nil and the
  handler run ends in the nil dereference of the payload.  The message is consumed,
  nothing is sent in reply to it, and no \<open>MALFORMED\<close> response is produced.
\<close>

theorem C6_variant_mismatch_nil_dereference:
  "(GetPseudonymsysNymGenProofRandomData req = Some d \<and>
    send_errors strm = [] \<and>
    inbox strm = Inr req2 # rest \<and>
    GetSchnorrProofData req2 = None \<longrightarrow>
    (case PseudonymsysGenerateNym env rnd req strm of
       (out, strm', org') \<Rightarrow>
         out = NilDereference \<and> inbox strm' = rest \<and>
         length (outbox strm') = length (outbox strm) + 1)) \<and>
   (GetSchnorrProofRandomData ireq = Some idata \<and>
    send_errors istrm = [] \<and>
    inbox istrm = Inr ireq2 # irest \<and>
    GetBigint ireq2 = None \<longrightarrow>
    (case PseudonymsysIssueCredential env irnd rnds ireq istrm of
       (out, strm', org') \<Rightarrow>
         out = NilDereference \<and> inbox strm' = irest \<and>
         length (outbox strm') = length (outbox istrm) + 1)) \<and>
   (GetSchnorrProofRandomData jreq = Some jdata \<and>
    send_errors jstrm = [] \<and>
    inbox jstrm = Inr jreq2 # Inr jreq3 # jrest \<and>
    GetBigint jreq2 = Some zb \<and>
    GetDoubleBigint jreq3 = None \<longrightarrow>
    (case PseudonymsysIssueCredential env jrnd jrnds jreq jstrm of
       (out, strm', org') \<Rightarrow>
         out = NilDereference \<and> inbox strm' = jrest \<and>
         length (outbox strm') = length (outbox jstrm) + 2))"
proof (intro conjI impI)
  assume "GetPseudonymsysNymGenProofRandomData req = Some d \<and>
    send_errors strm = [] \<and>
    inbox strm = Inr req2 # rest \<and>
    GetSchnorrProofData req2 = None"
  then show "case PseudonymsysGenerateNym env rnd req strm of
       (out, strm', org') \<Rightarrow>
         out = NilDereference \<and> inbox strm' = rest \<and>
         length (outbox strm') = length (outbox strm) + 1"
    by (elim conjE) (rule nymgen_variant_mismatch; assumption)
next
  assume "GetSchnorrProofRandomData ireq = Some idata \<and>
    send_errors istrm = [] \<and>
    inbox istrm = Inr ireq2 # irest \<and>
    GetBigint ireq2 = None"
  then show "case PseudonymsysIssueCredential env irnd rnds ireq istrm of
       (out, strm', org') \<Rightarrow>
         out = NilDereference \<and> inbox strm' = irest \<and>
         length (outbox strm') = length (outbox istrm) + 1"
    by (elim conjE) (rule issue_variant_mismatch_round2; assumption)
next
  assume "GetSchnorrProofRandomData jreq = Some jdata \<and>
    send_errors jstrm = [] \<and>
    inbox jstrm = Inr jreq2 # Inr jreq3 # jrest \<and>
    GetBigint jreq2 = Some zb \<and>
    GetDoubleBigint jreq3 = None"
  then show "case PseudonymsysIssueCredential env jrnd jrnds jreq jstrm of
       (out, strm', org') \<Rightarrow>
         out = NilDereference \<and> inbox strm' = jrest \<and>
         length (outbox strm') = length (outbox jstrm) + 2"
    by (elim conjE) (rule issue_variant_mismatch_round3; assumption)
qed

text \<open>Toy runs for the three places: a \<open>BigInt\<close> for \<open>SchnorrProofData\<close>, a \<open>Status\<close> for the
  \<open>BigInt\<close> of round 2, and a \<open>BigInt\<close> for the \<open>DoubleBigInt\<close> of round 3.\<close>

theorem C6_variant_mismatch_nil_dereference_witness:
  "(case PseudonymsysGenerateNym toy_env 2 toy_nymgen_req (toy_stream [msg (Message_Bigint [2])]) of
      (out, strm', org') \<Rightarrow> out = NilDereference \<and> length (outbox strm') = 1) \<and>
   (case PseudonymsysIssueCredential toy_env 2 (1, 1, 4, 7) toy_issue_req
           (toy_stream [msg (Message_Status True)]) of
      (out, strm', org') \<Rightarrow> out = NilDereference \<and> length (outbox strm') = 1) \<and>
   (case PseudonymsysIssueCredential toy_env 2 (1, 1, 4, 7) toy_issue_req
           (toy_stream [msg (Message_Bigint [2]), msg (Message_Bigint [5])]) of
      (out, strm', org') \<Rightarrow> out = NilDereference \<and> length (outbox strm') = 2)"
proof -
  let ?i = "\<lparr>Schnorr_X = [8], Schnorr_A = [2], Schnorr_B = [9]\<rparr>"
  have a: "GetPseudonymsysNymGenProofRandomData toy_nymgen_req = Some toy_nymgen_data \<and>
    send_errors (toy_stream [msg (Message_Bigint [2])]) = [] \<and>
    inbox (toy_stream [msg (Message_Bigint [2])]) = Inr (msg (Message_Bigint [2])) # [] \<and>
    GetSchnorrProofData (msg (Message_Bigint [2])) = None"
    by (simp add: toy_nymgen_req_def toy_stream_def msg_def)
  have b: "GetSchnorrProofRandomData toy_issue_req = Some ?i \<and>
    send_errors (toy_stream [msg (Message_Status True)]) = [] \<and>
    inbox (toy_stream [msg (Message_Status True)]) = Inr (msg (Message_Status True)) # [] \<and>
    GetBigint (msg (Message_Status True)) = None"
    by (simp add: toy_issue_req_def toy_stream_def msg_def)
  have c: "GetSchnorrProofRandomData toy_issue_req = Some ?i \<and>
    send_errors (toy_stream [msg (Message_Bigint [2]), msg (Message_Bigint [5])]) = [] \<and>
    inbox (toy_stream [msg (Message_Bigint [2]), msg (Message_Bigint [5])]) =
      Inr (msg (Message_Bigint [2])) # Inr (msg (Message_Bigint [5])) # [] \<and>
    GetBigint (msg (Message_Bigint [2])) = Some [2] \<and>
    GetDoubleBigint (msg (Message_Bigint [5])) = None"
    by (simp add: toy_issue_req_def toy_stream_def msg_def)
  note th = C6_variant_mismatch_nil_dereference [where env = toy_env and rnd = 2 and irnd = 2
      and rnds = "(1, 1, 4, 7)" and jrnd = 2 and jrnds = "(1, 1, 4, 7)"]
  from th [THEN conjunct1, THEN mp, OF a] th [THEN conjunct2, THEN conjunct1, THEN mp, OF b]
    th [THEN conjunct2, THEN conjunct2, THEN mp, OF c]
  show ?thesis
    by (simp add: toy_stream_def split: prod.splits)
qed

section \<open>Empty and absent fields\<close>











end
